theory Spec2Isabelle
  imports Main "HOL-Library.Multiset"
begin

section \<open>Values, devices, exceptions\<close>

text \<open>
  The worker of \<^verbatim>\<open>swarm/worker.py\<close>: one poll loop that leases a device from the
  pool, asks the hive for work, dispatches the jobs it gets and returns the device.

  A decoded JSON body is a Python object: \<^verbatim>\<open>None\<close>, a bool, a number, a string, a
  list or a dict. A dict is kept as an association list read with \<open>map_of\<close>. Numbers
  are integers here; every operation the worker applies to a number treats a float the
  same way.
\<close>

datatype json =
    JNull
  | JBool bool
  | JNum int
  | JStr string
  | JList "json list"
  | JDict "(string \<times> json) list"

datatype Device = Device (device_id: nat)

text \<open>
  The exceptions are the subclasses of Python's \<^verbatim>\<open>Exception\<close> that the worker names
  or that its own operations raise. \<^verbatim>\<open>ClientConnectorError\<close> and
  \<^verbatim>\<open>ClientResponseError\<close> are subclasses of aiohttp's \<^verbatim>\<open>ClientError\<close>.
  Signals outside \<^verbatim>\<open>Exception\<close> (keyboard interrupt, task cancellation, interpreter
  exit) end the process and are not part of the model.
\<close>

datatype exn =
    ClientConnectorError string
  | ClientResponseError nat
  | ClientError string
  | TimeoutError
  | JSONDecodeError string
  | TypeError string
  | AttributeError string
  | KeyError string
  | Exception string

fun is_ClientConnectorError :: "exn \<Rightarrow> bool" where
  "is_ClientConnectorError (ClientConnectorError m) = True"
| "is_ClientConnectorError e = False"

fun is_ClientError :: "exn \<Rightarrow> bool" where
  "is_ClientError (ClientConnectorError m) = True"
| "is_ClientError (ClientResponseError c) = True"
| "is_ClientError (ClientError m) = True"
| "is_ClientError e = False"

fun is_TimeoutError :: "exn \<Rightarrow> bool" where
  "is_TimeoutError TimeoutError = True"
| "is_TimeoutError e = False"

fun is_JSONDecodeError :: "exn \<Rightarrow> bool" where
  "is_JSONDecodeError (JSONDecodeError m) = True"
| "is_JSONDecodeError e = False"

section \<open>Settings and requests\<close>

text \<open>
  \<^verbatim>\<open>settings\<close> is loaded by a module outside this file; the fields the worker reads are
  parameters. \<open>package_version\<close> is the package's \<^verbatim>\<open>__version__\<close>.
\<close>

record settings =
  sdaas_uri :: string
  sdaas_token :: string
  worker_name :: string
  package_version :: string

definition rstrip_slash :: "string \<Rightarrow> string" where
  "rstrip_slash s = rev (dropWhile (\<lambda>c. c = CHR ''/'') (rev s))"

definition hive_uri :: "settings \<Rightarrow> string" where
  "hive_uri cfg = rstrip_slash (sdaas_uri cfg) @ ''/api''"

definition digit_char :: "nat \<Rightarrow> char" where
  "digit_char n = char_of (48 + n)"

function str_nat :: "nat \<Rightarrow> string" where
  "str_nat n = (if n < 10 then [digit_char n] else str_nat (n div 10) @ [digit_char (n mod 10)])"
  by pat_completeness auto
termination
  by (relation "measure id") auto

record get_request =
  url :: string
  timeout_total :: nat
  params :: "(string \<times> json) list"
  headers :: "(string \<times> string) list"

record post_request =
  post_url :: string
  data :: json
  post_headers :: "(string \<times> string) list"

definition request_headers :: "settings \<Rightarrow> (string \<times> string) list" where
  "request_headers cfg =
     [(''Content-type'', ''application/json''),
      (''Authorization'', ''Bearer '' @ sdaas_token cfg),
      (''user-agent'', ''chiaSWARM.worker/'' @ package_version cfg)]"

text \<open>
  The request of \<^verbatim>\<open>ask_for_work\<close> (lines 81-93). \<open>mem_info\<close> is the pair that
  \<^verbatim>\<open>torch.cuda.mem_get_info\<close> returned: free bytes first, total bytes second. The
  source sends \<^verbatim>\<open>mem_info[1]\<close>.
\<close>

definition work_request :: "settings \<Rightarrow> Device \<Rightarrow> nat \<times> nat \<Rightarrow> get_request" where
  "work_request cfg device mem_info =
     \<lparr> url = hive_uri cfg @ ''/work'',
       timeout_total = 10,
       params =
         [(''worker_version'', JStr (package_version cfg)),
          (''worker_name'', JStr (worker_name cfg @ '':'' @ str_nat (device_id device))),
          (''vram'', JNum (int (snd mem_info)))],
       headers = request_headers cfg \<rparr>"

definition results_request :: "settings \<Rightarrow> json \<Rightarrow> post_request" where
  "results_request cfg result =
     \<lparr> post_url = hive_uri cfg @ ''/results'',
       data = result,
       post_headers = request_headers cfg \<rparr>"

text \<open>
  A response as the worker reads it: its status, what \<^verbatim>\<open>await response.json()\<close> gives
  and what \<^verbatim>\<open>await response.text()\<close> gives. Either read can raise.
\<close>

record response =
  status :: nat
  json_body :: "exn + json"
  text_body :: "exn + string"

text \<open>
  aiohttp's \<^verbatim>\<open>raise_for_status\<close>: raises \<^verbatim>\<open>ClientResponseError\<close> when the status is
  400 or above, and returns otherwise.
\<close>

definition raise_for_status :: "response \<Rightarrow> exn + unit" where
  "raise_for_status r = (if 400 \<le> status r then Inl (ClientResponseError (status r)) else Inr ())"

section \<open>Python's operations on the decoded body\<close>

fun starts_with :: "string \<Rightarrow> string \<Rightarrow> bool" where
  "starts_with [] t = True"
| "starts_with (c # cs) [] = False"
| "starts_with (c # cs) (d # ds) = (c = d \<and> starts_with cs ds)"

fun has_substring :: "string \<Rightarrow> string \<Rightarrow> bool" where
  "has_substring k [] = (k = [])"
| "has_substring k (c # cs) = (starts_with k (c # cs) \<or> has_substring k cs)"

text \<open>
  \<^verbatim>\<open>key in v\<close>: key membership for a dict, element membership for a list, substring
  for a string, \<^verbatim>\<open>TypeError\<close> for anything else.
\<close>

fun py_contains :: "string \<Rightarrow> json \<Rightarrow> exn + bool" where
  "py_contains k (JDict kv) = Inr (k \<in> set (map fst kv))"
| "py_contains k (JList xs) = Inr (JStr k \<in> set xs)"
| "py_contains k (JStr t) = Inr (has_substring k t)"
| "py_contains k v = Inl (TypeError ''argument is not iterable'')"

text \<open>\<^verbatim>\<open>v[key]\<close> with a string key.\<close>

fun py_getitem :: "json \<Rightarrow> string \<Rightarrow> exn + json" where
  "py_getitem (JDict kv) k = (case map_of kv k of None \<Rightarrow> Inl (KeyError k) | Some x \<Rightarrow> Inr x)"
| "py_getitem (JList xs) k = Inl (TypeError ''list indices must be integers or slices, not str'')"
| "py_getitem (JStr t) k = Inl (TypeError ''string indices must be integers'')"
| "py_getitem v k = Inl (TypeError ''object is not subscriptable'')"

text \<open>\<^verbatim>\<open>v.pop(key, default)\<close>: only a dict has this method with two arguments.\<close>

fun py_pop :: "json \<Rightarrow> string \<Rightarrow> json \<Rightarrow> exn + json" where
  "py_pop (JDict kv) k dflt = (case map_of kv k of None \<Rightarrow> Inr dflt | Some x \<Rightarrow> Inr x)"
| "py_pop (JList xs) k dflt = Inl (TypeError ''pop expected at most 1 argument, got 2'')"
| "py_pop v k dflt = Inl (AttributeError ''object has no attribute pop'')"

section \<open>The outside world and what the worker does to it\<close>

text \<open>
  Every \<^verbatim>\<open>print\<close> and every \<^verbatim>\<open>logging\<close> call of the source is one message; the
  line is the line of the source. The time stamp of line 76 is left out.
\<close>

datatype msg =
    AskingForWork nat string      \<comment> \<open>line 75\<close>
  | DecodeError string            \<comment> \<open>line 47\<close>
  | JobsMissing                   \<comment> \<open>line 51\<close>
  | JobsNotList                   \<comment> \<open>line 55\<close>
  | HiveSays string json          \<comment> \<open>line 70\<close>
  | HiveReturned string nat       \<comment> \<open>line 103\<close>
  | ConnectFailed exn             \<comment> \<open>line 109\<close>
  | RequestFailed exn             \<comment> \<open>line 113\<close>
  | TimedOut                      \<comment> \<open>line 117\<close>
  | UnknownError exn              \<comment> \<open>line 121\<close>
  | GotWork nat                   \<comment> \<open>line 126\<close>
  | HiveError string              \<comment> \<open>line 142\<close>
  | ResultAccepted nat json       \<comment> \<open>line 144\<close>
  | JobFailed exn                 \<comment> \<open>line 147\<close>
  | LoopError exn                 \<comment> \<open>line 36\<close>
  | VersionIs string              \<comment> \<open>line 160\<close>
  | TorchVersionIs string         \<comment> \<open>line 161\<close>
  | AddingDevice nat string       \<comment> \<open>line 168\<close>
  | WorkerStarted                 \<comment> \<open>line 25\<close>

text \<open>
  The calls the worker makes to its collaborators, in the order it makes them.
  \<open>Print\<close> is \<^verbatim>\<open>print\<close>, \<open>Log\<close> is \<^verbatim>\<open>logging.info\<close> or \<^verbatim>\<open>logging.debug\<close>,
  \<open>SetupLogging\<close> is the call of line 159 and \<open>TorchOptions\<close> stands for the three
  settings of lines 163-165.
\<close>

datatype event =
    Sleep nat
  | PoolRemove Device
  | PoolAdd Device
  | Print msg
  | Log msg
  | SetupLogging
  | TorchOptions
  | MemGetInfo nat
  | HttpGet get_request
  | DoWork json Device
  | HttpPost post_request

text \<open>
  The collaborators answer from a world \<open>'w\<close> that they may change: the device
  telemetry (\<^verbatim>\<open>torch.cuda.mem_get_info\<close>, which returns the pair (free, total)), the
  hive behind \<^verbatim>\<open>session.get\<close> and \<^verbatim>\<open>session.post\<close>, and the computation
  \<^verbatim>\<open>do_work\<close>. Each of them can raise. \<open>pick\<close> is the pool's choice among the
  available devices.
\<close>

record 'w env =
  mem_get_info :: "nat \<Rightarrow> 'w \<Rightarrow> (exn + nat \<times> nat) \<times> 'w"
  session_get :: "get_request \<Rightarrow> 'w \<Rightarrow> (exn + response) \<times> 'w"
  do_work :: "json \<Rightarrow> Device \<Rightarrow> 'w \<Rightarrow> (exn + json) \<times> 'w"
  session_post :: "post_request \<Rightarrow> 'w \<Rightarrow> (exn + response) \<times> 'w"
  pick :: "Device list \<Rightarrow> nat"

record 'w state =
  pool :: "Device list"
  world :: 'w
  trace :: "event list"

definition emit :: "event \<Rightarrow> 'w state \<Rightarrow> 'w state" where
  "emit ev s = s\<lparr>trace := trace s @ [ev]\<rparr>"

section \<open>The device pool\<close>

text \<open>
  Modelled from the spec: the module \<^verbatim>\<open>gpu/device_pool.py\<close> is not among the sources.
  Section 4.2: \<^verbatim>\<open>release\<close> returns a device to the available set; \<^verbatim>\<open>acquire\<close>
  removes and returns one available device, any of them, and blocks when none is
  available. With a single poll loop nobody else can release, so an acquire on an empty
  pool never returns: \<open>None\<close>.
\<close>

definition add_device_to_pool :: "Device \<Rightarrow> 'w state \<Rightarrow> 'w state" where
  "add_device_to_pool d s = s\<lparr>pool := pool s @ [d], trace := trace s @ [PoolAdd d]\<rparr>"

definition remove_device_from_pool :: "'w env \<Rightarrow> 'w state \<Rightarrow> (Device \<times> 'w state) option" where
  "remove_device_from_pool env s =
     (if pool s = [] then None
      else let i = pick env (pool s) mod length (pool s);
               d = pool s ! i
           in Some (d, s\<lparr>pool := take i (pool s) @ drop (Suc i) (pool s),
                          trace := trace s @ [PoolRemove d]\<rparr>))"

section \<open>The job dispatcher: \<^verbatim>\<open>spawn_task\<close>\<close>

text \<open>The body of the \<^verbatim>\<open>try\<close> of lines 128-144.\<close>

definition spawn_task_try ::
  "settings \<Rightarrow> 'w env \<Rightarrow> json \<Rightarrow> Device \<Rightarrow> 'w state \<Rightarrow> (exn + unit) \<times> 'w state" where
  "spawn_task_try cfg env job device s =
     (case do_work env job device (world s) of (r, w1) \<Rightarrow>
        let s1 = s\<lparr>world := w1, trace := trace s @ [DoWork job device]\<rparr> in
        (case r of
           Inl e \<Rightarrow> (Inl e, s1)
         | Inr result \<Rightarrow>
             (case session_post env (results_request cfg result) (world s1) of (p, w2) \<Rightarrow>
                let s2 = s1\<lparr>world := w2,
                             trace := trace s1 @ [HttpPost (results_request cfg result)]\<rparr> in
                (case p of
                   Inl e \<Rightarrow> (Inl e, s2)
                 | Inr resultResponse \<Rightarrow>
                     if status resultResponse = 500 then
                       (case text_body resultResponse of
                          Inl e \<Rightarrow> (Inl e, s2)
                        | Inr t \<Rightarrow> (Inr (), emit (Print (HiveError t)) s2))
                     else
                       (case json_body resultResponse of
                          Inl e \<Rightarrow> (Inl e, s2)
                        | Inr j \<Rightarrow>
                            (Inr (), emit (Print (ResultAccepted (device_id device) j)) s2))))))"

text \<open>\<^verbatim>\<open>spawn_task\<close>: the print of line 126, the \<^verbatim>\<open>try\<close>, and the handler of line 146.\<close>

definition spawn_task ::
  "settings \<Rightarrow> 'w env \<Rightarrow> json \<Rightarrow> Device \<Rightarrow> 'w state \<Rightarrow> (exn + unit) \<times> 'w state" where
  "spawn_task cfg env job device s =
     (case spawn_task_try cfg env job device (emit (Print (GotWork (device_id device))) s) of
        (Inr u, s1) \<Rightarrow> (Inr u, s1)
      | (Inl e, s1) \<Rightarrow> (Inr (), emit (Print (JobFailed e)) s1))"

section \<open>The work request: \<^verbatim>\<open>handle_status_200\<close>, \<^verbatim>\<open>handle_status_400\<close>, \<^verbatim>\<open>ask_for_work\<close>\<close>

text \<open>The loop of lines 58-61; \<open>did_work\<close> is the flag it sets.\<close>

fun dispatch_jobs ::
  "settings \<Rightarrow> 'w env \<Rightarrow> Device \<Rightarrow> json list \<Rightarrow> bool \<Rightarrow> 'w state \<Rightarrow> (exn + bool) \<times> 'w state" where
  "dispatch_jobs cfg env device [] did_work s = (Inr did_work, s)"
| "dispatch_jobs cfg env device (job # jobs) did_work s =
     (case spawn_task cfg env job device s of
        (Inl e, s1) \<Rightarrow> (Inl e, s1)
      | (Inr u, s1) \<Rightarrow> dispatch_jobs cfg env device jobs True s1)"

definition handle_status_200 ::
  "settings \<Rightarrow> 'w env \<Rightarrow> response \<Rightarrow> Device \<Rightarrow> 'w state \<Rightarrow> (exn + nat) \<times> 'w state" where
  "handle_status_200 cfg env resp device s =
     (case json_body resp of
        Inl e \<Rightarrow>
          if is_JSONDecodeError e then
            (case text_body resp of
               Inl e' \<Rightarrow> (Inl e', s)
             | Inr t \<Rightarrow> (Inr 11, emit (Print (DecodeError t)) s))
          else (Inl e, s)
      | Inr response_dict \<Rightarrow>
          (case py_contains ''jobs'' response_dict of
             Inl e \<Rightarrow> (Inl e, s)
           | Inr present \<Rightarrow>
               if \<not> present then (Inr 11, emit (Print JobsMissing) s)
               else
                 (case py_getitem response_dict ''jobs'' of
                    Inl e \<Rightarrow> (Inl e, s)
                  | Inr (JList jobs) \<Rightarrow>
                      (case dispatch_jobs cfg env device jobs False s of
                         (Inl e, s1) \<Rightarrow> (Inl e, s1)
                       | (Inr did_work, s1) \<Rightarrow> (Inr (if did_work then 0 else 11), s1))
                  | Inr other \<Rightarrow> (Inr 11, emit (Print JobsNotList) s))))"

definition handle_status_400 ::
  "settings \<Rightarrow> response \<Rightarrow> 'w state \<Rightarrow> (exn + unit) \<times> 'w state" where
  "handle_status_400 cfg resp s =
     (case json_body resp of
        Inl e \<Rightarrow> (Inl e, s)
      | Inr response_dict \<Rightarrow>
          (case py_pop response_dict ''message'' (JStr ''bad worker'') of
             Inl e \<Rightarrow> (Inl e, s)
           | Inr message \<Rightarrow>
               (raise_for_status resp, emit (Print (HiveSays (hive_uri cfg) message)) s)))"

text \<open>The body of the \<^verbatim>\<open>try\<close> of \<^verbatim>\<open>ask_for_work\<close>, lines 80-106.\<close>

definition ask_for_work_try ::
  "settings \<Rightarrow> 'w env \<Rightarrow> Device \<Rightarrow> nat \<times> nat \<Rightarrow> 'w state \<Rightarrow> (exn + nat) \<times> 'w state" where
  "ask_for_work_try cfg env device mem_info s =
     (case session_get env (work_request cfg device mem_info) (world s) of (r, w1) \<Rightarrow>
        let s1 = s\<lparr>world := w1,
                    trace := trace s @ [HttpGet (work_request cfg device mem_info)]\<rparr> in
        (case r of
           Inl e \<Rightarrow> (Inl e, s1)
         | Inr resp \<Rightarrow>
             if status resp = 200 then handle_status_200 cfg env resp device s1
             else
               (case (if status resp = 400 then handle_status_400 cfg resp s1
                      else (raise_for_status resp,
                            emit (Print (HiveReturned (hive_uri cfg) (status resp))) s1)) of
                  (Inl e, s2) \<Rightarrow> (Inl e, s2)
                | (Inr u, s2) \<Rightarrow> (Inr 11, s2))))"

text \<open>The four handlers of lines 108-122, in the order of the source.\<close>

definition ask_for_work_except :: "exn \<Rightarrow> 'w state \<Rightarrow> (exn + nat) \<times> 'w state" where
  "ask_for_work_except e s =
     (if is_ClientConnectorError e then (Inr 121, emit (Print (ConnectFailed e)) s)
      else if is_ClientError e then (Inr 121, emit (Print (RequestFailed e)) s)
      else if is_TimeoutError e then (Inr 121, emit (Print TimedOut) s)
      else (Inr 121, emit (Print (UnknownError e)) s))"

text \<open>
  \<^verbatim>\<open>ask_for_work\<close>: the print and the memory query of lines 75-78 stand before the
  \<^verbatim>\<open>try\<close>, so an exception of the query leaves the function.
\<close>

definition ask_for_work ::
  "settings \<Rightarrow> 'w env \<Rightarrow> Device \<Rightarrow> 'w state \<Rightarrow> (exn + nat) \<times> 'w state" where
  "ask_for_work cfg env device s =
     (let s0 = emit (Print (AskingForWork (device_id device) (hive_uri cfg))) s in
      case mem_get_info env (device_id device) (world s0) of (m, w1) \<Rightarrow>
        let s1 = s0\<lparr>world := w1, trace := trace s0 @ [MemGetInfo (device_id device)]\<rparr> in
        (case m of
           Inl e \<Rightarrow> (Inl e, s1)
         | Inr mem_info \<Rightarrow>
             (case ask_for_work_try cfg env device mem_info s1 of
                (Inr wait, s2) \<Rightarrow> (Inr wait, s2)
              | (Inl e, s2) \<Rightarrow> ask_for_work_except e s2)))"

section \<open>The poll loop: \<^verbatim>\<open>run_worker\<close>\<close>

text \<open>
  One pass of the body of \<^verbatim>\<open>while True\<close> (lines 29-40), from the wait value of the
  pass before to the next one. \<open>None\<close>: the acquire never returns.
\<close>

definition poll_iteration ::
  "settings \<Rightarrow> 'w env \<Rightarrow> nat \<Rightarrow> 'w state \<Rightarrow> (nat \<times> 'w state) option" where
  "poll_iteration cfg env wait_seconds s =
     (case remove_device_from_pool env (emit (Sleep wait_seconds) s) of
        None \<Rightarrow> None
      | Some (device, s1) \<Rightarrow>
          (case ask_for_work cfg env device s1 of
             (Inr wait, s2) \<Rightarrow> Some (wait, add_device_to_pool device s2)
           | (Inl e, s2) \<Rightarrow> Some (121, add_device_to_pool device (emit (Print (LoopError e)) s2))))"

text \<open>The first \<open>n\<close> passes of the loop.\<close>

fun poll_loop ::
  "nat \<Rightarrow> settings \<Rightarrow> 'w env \<Rightarrow> nat \<Rightarrow> 'w state \<Rightarrow> (nat \<times> 'w state) option" where
  "poll_loop 0 cfg env wait_seconds s = Some (wait_seconds, s)"
| "poll_loop (Suc n) cfg env wait_seconds s =
     (case poll_iteration cfg env wait_seconds s of
        None \<Rightarrow> None
      | Some (wait, s1) \<Rightarrow> poll_loop n cfg env wait s1)"

section \<open>Startup\<close>

text \<open>
  The machine that \<^verbatim>\<open>startup\<close> runs on. torch answers
  \<^verbatim>\<open>torch.cuda.device_count()\<close> with 0 when it was built without CUDA and with the
  number of devices the driver shows otherwise, and \<^verbatim>\<open>torch.cuda.is_available()\<close> with
  whether it was built with CUDA and that number is above 0: a machine on which CUDA is
  available and no device is counted does not exist. \<^verbatim>\<open>torch.cuda.get_device_name(i)\<close>
  and the set-up of logging (line 159, which opens the log file) can raise. The three
  settings of lines 163-165 are given constants that torch accepts, and do not raise.
  The order of \<^verbatim>\<open>packaging.version\<close> is the parameter \<open>version_lt\<close>:
  \<open>version_lt a b\<close> is \<^verbatim>\<open>version.parse(a) < version.parse(b)\<close>.
\<close>

record runtime =
  cuda_compiled :: bool
  visible_devices :: nat
  torch_version :: string
  get_device_name :: "nat \<Rightarrow> exn + string"
  logging_setup :: "exn + unit"

definition device_count :: "runtime \<Rightarrow> nat" where
  "device_count rt = (if cuda_compiled rt then visible_devices rt else 0)"

definition is_available :: "runtime \<Rightarrow> bool" where
  "is_available rt = (cuda_compiled rt \<and> 0 < visible_devices rt)"

text \<open>The loop of lines 167-169 over the ordinals it still has to register.\<close>

fun register_devices :: "runtime \<Rightarrow> nat list \<Rightarrow> 'w state \<Rightarrow> exn + 'w state" where
  "register_devices rt [] s = Inr s"
| "register_devices rt (i # ordinals) s =
     (case get_device_name rt i of
        Inl e \<Rightarrow> Inl e
      | Inr name \<Rightarrow>
          register_devices rt ordinals
            (add_device_to_pool (Device i) (emit (Log (AddingDevice i name)) s)))"

definition startup ::
  "(string \<Rightarrow> string \<Rightarrow> bool) \<Rightarrow> runtime \<Rightarrow> settings \<Rightarrow> 'w state \<Rightarrow> exn + 'w state" where
  "startup version_lt rt cfg s =
     (if \<not> is_available rt then Inl (Exception ''CUDA not present. Quitting.'')
      else if version_lt (torch_version rt) ''2.0.0'' then
        Inl (Exception (''Pytorch must be 2.0 or greater (found '' @ torch_version rt
                        @ ''). Run install script. Quitting.''))
      else
        (case logging_setup rt of
           Inl e \<Rightarrow> Inl e
         | Inr u \<Rightarrow>
             register_devices rt [0..<device_count rt]
               (s\<lparr>trace := trace s @ [SetupLogging, Log (VersionIs (package_version cfg)),
                                        Log (TorchVersionIs (torch_version rt)),
                                        TorchOptions]\<rparr>)))"

text \<open>
  \<^verbatim>\<open>run_worker\<close>: startup, the log line of line 25, then the loop from
  \<open>wait_seconds = 0\<close>.
\<close>

definition run_worker ::
  "nat \<Rightarrow> (string \<Rightarrow> string \<Rightarrow> bool) \<Rightarrow> runtime \<Rightarrow> settings \<Rightarrow> 'w env \<Rightarrow> 'w state
     \<Rightarrow> exn + (nat \<times> 'w state) option" where
  "run_worker n version_lt rt cfg env s =
     (case startup version_lt rt cfg s of
        Inl e \<Rightarrow> Inl e
      | Inr s1 \<Rightarrow> Inr (poll_loop n cfg env 0 (emit (Log WorkerStarted) s1)))"

section \<open>Observations on a trace\<close>

fun dispatched :: "event list \<Rightarrow> (json \<times> Device) list" where
  "dispatched [] = []"
| "dispatched (DoWork j d # evs) = (j, d) # dispatched evs"
| "dispatched (ev # evs) = dispatched evs"

fun requests_sent :: "event list \<Rightarrow> get_request list" where
  "requests_sent [] = []"
| "requests_sent (HttpGet r # evs) = r # requests_sent evs"
| "requests_sent (ev # evs) = requests_sent evs"

fun pool_adds :: "event list \<Rightarrow> Device list" where
  "pool_adds [] = []"
| "pool_adds (PoolAdd d # evs) = d # pool_adds evs"
| "pool_adds (ev # evs) = pool_adds evs"

fun pool_removes :: "event list \<Rightarrow> Device list" where
  "pool_removes [] = []"
| "pool_removes (PoolRemove d # evs) = d # pool_removes evs"
| "pool_removes (ev # evs) = pool_removes evs"

fun printed :: "event list \<Rightarrow> msg list" where
  "printed [] = []"
| "printed (Print m # evs) = m # printed evs"
| "printed (ev # evs) = printed evs"

text \<open>
  A step that leaves the pool alone: the pool is the same and the events added to the
  trace are neither removals from the pool nor additions to it.
\<close>

definition keeps_pool :: "'w state \<Rightarrow> 'w state \<Rightarrow> bool" where
  "keeps_pool s s' =
     (pool s' = pool s
      \<and> (\<exists>tr. trace s' = trace s @ tr \<and> pool_adds tr = [] \<and> pool_removes tr = []))"

text \<open>\<^verbatim>\<open>isinstance(v, list)\<close>.\<close>

fun is_list :: "json \<Rightarrow> bool" where
  "is_list (JList xs) = True"
| "is_list v = False"

text \<open>\<^verbatim>\<open>isinstance(v, dict)\<close>.\<close>

fun is_dict :: "json \<Rightarrow> bool" where
  "is_dict (JDict kv) = True"
| "is_dict v = False"

text \<open>The line that the handlers of lines 108-122 print for an exception.\<close>

definition handler_msg :: "exn \<Rightarrow> msg" where
  "handler_msg e =
     (if is_ClientConnectorError e then ConnectFailed e
      else if is_ClientError e then RequestFailed e
      else if is_TimeoutError e then TimedOut
      else UnknownError e)"


text \<open>
  The work request returns the wait \<open>w\<close> with no job dispatched, having printed the
  messages \<open>ms\<close> after its opening line.
\<close>

definition quiet_outcome ::
  "settings \<Rightarrow> 'w env \<Rightarrow> Device \<Rightarrow> 'w state \<Rightarrow> nat \<Rightarrow> msg list \<Rightarrow> bool" where
  "quiet_outcome cfg env d s w ms =
     (fst (ask_for_work cfg env d s) = Inr w
      \<and> dispatched (trace (snd (ask_for_work cfg env d s))) = dispatched (trace s)
      \<and> printed (trace (snd (ask_for_work cfg env d s)))
          = printed (trace s) @ AskingForWork (device_id d) (hive_uri cfg) # ms)"

text \<open>A step that sends no work request.\<close>

definition no_request :: "'w state \<Rightarrow> 'w state \<Rightarrow> bool" where
  "no_request s s' = (\<exists>tr. trace s' = trace s @ tr \<and> requests_sent tr = [])"


section \<open>Concrete inputs\<close>

text \<open>
  An order on plain dotted release numbers (\<^verbatim>\<open>1.13.1\<close>, \<^verbatim>\<open>2.0\<close>), to run
  \<open>startup\<close> on concrete versions: trailing zeros are dropped and the numbers are
  compared from the left.
\<close>

fun split_dots :: "string \<Rightarrow> string \<Rightarrow> string list" where
  "split_dots acc [] = [acc]"
| "split_dots acc (c # cs) =
     (if c = CHR ''.'' then acc # split_dots [] cs else split_dots (acc @ [c]) cs)"

definition digits_value :: "string \<Rightarrow> nat" where
  "digits_value ds = foldl (\<lambda>n c. 10 * n + (of_char c - 48)) 0 ds"

definition release :: "string \<Rightarrow> nat list" where
  "release v = rev (dropWhile (\<lambda>n. n = 0) (rev (map digits_value (split_dots [] v))))"

fun lex_less :: "nat list \<Rightarrow> nat list \<Rightarrow> bool" where
  "lex_less [] [] = False"
| "lex_less [] (y # ys) = True"
| "lex_less (x # xs) [] = False"
| "lex_less (x # xs) (y # ys) = (x < y \<or> (x = y \<and> lex_less xs ys))"

definition dotted_lt :: "string \<Rightarrow> string \<Rightarrow> bool" where
  "dotted_lt a b = lex_less (release a) (release b)"

definition cfg0 :: settings where
  "cfg0 = \<lparr> sdaas_uri = ''https://hive.example/'', sdaas_token = ''secret'',
            worker_name = ''rig'', package_version = ''0.1.0'' \<rparr>"

text \<open>
  A world that counts the calls made to it, and collaborators that give the same answer
  at every call; the pool hands out its oldest device.
\<close>

definition fixed_env ::
  "(exn + nat \<times> nat) \<Rightarrow> (exn + response) \<Rightarrow> (json \<Rightarrow> exn + json) \<Rightarrow> (exn + response)
     \<Rightarrow> nat env" where
  "fixed_env mem got work posted =
     \<lparr> mem_get_info = (\<lambda>i w. (mem, Suc w)),
       session_get = (\<lambda>req w. (got, Suc w)),
       do_work = (\<lambda>job device w. (work job, Suc w)),
       session_post = (\<lambda>req w. (posted, Suc w)),
       pick = (\<lambda>devices. 0) \<rparr>"

definition st0 :: "nat state" where
  "st0 = \<lparr> pool = [Device 0], world = 0, trace = [] \<rparr>"

definition st_empty :: "nat state" where
  "st_empty = \<lparr> pool = [], world = 0, trace = [] \<rparr>"

definition ok_response :: "json \<Rightarrow> response" where
  "ok_response body = \<lparr> status = 200, json_body = Inr body, text_body = Inr ''body'' \<rparr>"

definition accepted :: response where
  "accepted = ok_response (JDict [(''status'', JStr ''ok'')])"

text \<open>A device with 1000 bytes free out of 8000.\<close>

definition mem0 :: "exn + nat \<times> nat" where
  "mem0 = Inr (1000, 8000)"

definition env_400 :: "nat env" where
  "env_400 = fixed_env mem0
     (Inr \<lparr> status = 400, json_body = Inr (JDict [(''message'', JStr ''rate limited'')]),
            text_body = Inr ''body'' \<rparr>)
     (\<lambda>job. Inr JNull) (Inr accepted)"

definition env_jobs :: "nat env" where
  "env_jobs = fixed_env mem0
     (Inr (ok_response (JDict [(''jobs'', JList [JStr ''j1'', JStr ''j2''])])))
     (\<lambda>job. Inr JNull) (Inr accepted)"


definition env_no_work :: "nat env" where
  "env_no_work = fixed_env mem0 (Inr (ok_response (JDict [(''jobs'', JList [])])))
     (\<lambda>job. Inr JNull) (Inr accepted)"

definition env_no_jobs_field :: "nat env" where
  "env_no_jobs_field = fixed_env mem0 (Inr (ok_response (JDict [(''error'', JStr ''busy'')])))
     (\<lambda>job. Inr JNull) (Inr accepted)"

definition env_jobs_not_list :: "nat env" where
  "env_jobs_not_list = fixed_env mem0 (Inr (ok_response (JDict [(''jobs'', JStr ''none'')])))
     (\<lambda>job. Inr JNull) (Inr accepted)"

definition env_not_json :: "nat env" where
  "env_not_json = fixed_env mem0
     (Inr \<lparr> status = 200, json_body = Inl (JSONDecodeError ''Expecting value''),
            text_body = Inr ''<html>'' \<rparr>)
     (\<lambda>job. Inr JNull) (Inr accepted)"

text \<open>Status 200 with an empty body, which decodes to \<^verbatim>\<open>None\<close>.\<close>

definition env_null :: "nat env" where
  "env_null = fixed_env mem0 (Inr (ok_response JNull)) (\<lambda>job. Inr JNull) (Inr accepted)"

definition env_offline :: "nat env" where
  "env_offline = fixed_env mem0 (Inl (ClientConnectorError ''cannot connect''))
     (\<lambda>job. Inr JNull) (Inr accepted)"

definition env_no_telemetry :: "nat env" where
  "env_no_telemetry = fixed_env (Inl (Exception ''CUDA error''))
     (Inr (ok_response (JDict [(''jobs'', JList [])]))) (\<lambda>job. Inr JNull) (Inr accepted)"


definition rt_two :: runtime where
  "rt_two = \<lparr> cuda_compiled = True, visible_devices = 2, torch_version = ''2.0.1'',
              get_device_name = (\<lambda>i. Inr ''gpu''), logging_setup = Inr () \<rparr>"




text \<open>The log file cannot be opened.\<close>

definition rt_no_log :: runtime where
  "rt_no_log = \<lparr> cuda_compiled = True, visible_devices = 2, torch_version = ''2.0.1'',
                 get_device_name = (\<lambda>i. Inr ''gpu''),
                 logging_setup = Inl (Exception ''permission denied'') \<rparr>"

text \<open>Answers 400 with a body that is not JSON, and with an empty body.\<close>

definition env_400_not_json :: "nat env" where
  "env_400_not_json = fixed_env mem0
     (Inr \<lparr> status = 400, json_body = Inl (ClientError ''unexpected mimetype: text/html''),
            text_body = Inr ''<html>'' \<rparr>)
     (\<lambda>job. Inr JNull) (Inr accepted)"

definition env_400_null :: "nat env" where
  "env_400_null = fixed_env mem0
     (Inr \<lparr> status = 400, json_body = Inr JNull, text_body = Inr [] \<rparr>)
     (\<lambda>job. Inr JNull) (Inr accepted)"

text \<open>Answers 200 with a body that is a list.\<close>

definition env_list_body :: "nat env" where
  "env_list_body = fixed_env mem0 (Inr (ok_response (JList [JNum 1, JNum 2])))
     (\<lambda>job. Inr JNull) (Inr accepted)"

text \<open>Answers 200, and reading the body times out.\<close>

definition env_body_timeout :: "nat env" where
  "env_body_timeout = fixed_env mem0
     (Inr \<lparr> status = 200, json_body = Inl TimeoutError, text_body = Inl TimeoutError \<rparr>)
     (\<lambda>job. Inr JNull) (Inr accepted)"

section \<open>Traces\<close>

lemma dispatched_append: "dispatched (xs @ ys) = dispatched xs @ dispatched ys"
  by (induction xs rule: dispatched.induct) simp_all

lemma pool_adds_append: "pool_adds (xs @ ys) = pool_adds xs @ pool_adds ys"
  by (induction xs rule: pool_adds.induct) simp_all

lemma pool_removes_append: "pool_removes (xs @ ys) = pool_removes xs @ pool_removes ys"
  by (induction xs rule: pool_removes.induct) simp_all

lemma requests_sent_append: "requests_sent (xs @ ys) = requests_sent xs @ requests_sent ys"
  by (induction xs rule: requests_sent.induct) simp_all

lemma printed_append: "printed (xs @ ys) = printed xs @ printed ys"
  by (induction xs rule: printed.induct) simp_all

lemmas proj_append =
  dispatched_append pool_adds_append pool_removes_append requests_sent_append printed_append

lemma keeps_pool_refl: "keeps_pool s s"
  by (simp add: keeps_pool_def)

lemma keeps_pool_trans: "keeps_pool s s1 \<Longrightarrow> keeps_pool s1 s2 \<Longrightarrow> keeps_pool s s2"
  by (auto simp: keeps_pool_def proj_append)

section \<open>The dispatcher never raises\<close>

lemma spawn_task_try_pool: "pool (snd (spawn_task_try cfg env job d s)) = pool s"
  by (simp add: spawn_task_try_def emit_def Let_def split: prod.splits sum.splits)

lemma spawn_task_try_dispatched:
  "dispatched (trace (snd (spawn_task_try cfg env job d s))) = dispatched (trace s) @ [(job, d)]"
  by (simp add: spawn_task_try_def emit_def Let_def proj_append split: prod.splits sum.splits)

lemma spawn_task_try_pool_events:
  "pool_adds (trace (snd (spawn_task_try cfg env job d s))) = pool_adds (trace s)"
  "pool_removes (trace (snd (spawn_task_try cfg env job d s))) = pool_removes (trace s)"
  "requests_sent (trace (snd (spawn_task_try cfg env job d s))) = requests_sent (trace s)"
  by (simp_all add: spawn_task_try_def emit_def Let_def proj_append split: prod.splits sum.splits)

lemma spawn_task_returns: "fst (spawn_task cfg env job d s) = Inr ()"
  by (simp add: spawn_task_def split: prod.splits sum.splits)

lemma spawn_task_pool: "pool (snd (spawn_task cfg env job d s)) = pool s"
  using spawn_task_try_pool [of cfg env job d "emit (Print (GotWork (device_id d))) s"]
  by (auto simp: spawn_task_def emit_def split: prod.splits sum.splits)

lemma spawn_task_dispatched:
  "dispatched (trace (snd (spawn_task cfg env job d s))) = dispatched (trace s) @ [(job, d)]"
  using spawn_task_try_dispatched [of cfg env job d "emit (Print (GotWork (device_id d))) s"]
  by (auto simp: spawn_task_def emit_def proj_append split: prod.splits sum.splits)

lemma spawn_task_pool_events:
  "pool_adds (trace (snd (spawn_task cfg env job d s))) = pool_adds (trace s)"
  "pool_removes (trace (snd (spawn_task cfg env job d s))) = pool_removes (trace s)"
  "requests_sent (trace (snd (spawn_task cfg env job d s))) = requests_sent (trace s)"
  using spawn_task_try_pool_events [of cfg env job d "emit (Print (GotWork (device_id d))) s"]
  by (auto simp: spawn_task_def emit_def proj_append split: prod.splits sum.splits)

lemma dispatch_jobs_returns:
  "fst (dispatch_jobs cfg env d jobs did s) = Inr (did \<or> jobs \<noteq> [])"
proof (induction jobs arbitrary: did s)
  case Nil
  show ?case by simp
next
  case (Cons job jobs)
  obtain s1 where "spawn_task cfg env job d s = (Inr (), s1)"
    using spawn_task_returns [of cfg env job d s] by (cases "spawn_task cfg env job d s") auto
  then show ?case using Cons.IH [of True s1] by simp
qed

lemma dispatch_jobs_pool: "pool (snd (dispatch_jobs cfg env d jobs did s)) = pool s"
proof (induction jobs arbitrary: did s)
  case Nil
  show ?case by simp
next
  case (Cons job jobs)
  obtain s1 where s1: "spawn_task cfg env job d s = (Inr (), s1)"
    using spawn_task_returns [of cfg env job d s] by (cases "spawn_task cfg env job d s") auto
  have "pool s1 = pool s" using spawn_task_pool [of cfg env job d s] s1 by simp
  then show ?case using Cons.IH [of True s1] s1 by simp
qed

lemma dispatch_jobs_dispatched:
  "dispatched (trace (snd (dispatch_jobs cfg env d jobs did s)))
     = dispatched (trace s) @ map (\<lambda>j. (j, d)) jobs"
proof (induction jobs arbitrary: did s)
  case Nil
  show ?case by simp
next
  case (Cons job jobs)
  obtain s1 where s1: "spawn_task cfg env job d s = (Inr (), s1)"
    using spawn_task_returns [of cfg env job d s] by (cases "spawn_task cfg env job d s") auto
  have "dispatched (trace s1) = dispatched (trace s) @ [(job, d)]"
    using spawn_task_dispatched [of cfg env job d s] s1 by simp
  then show ?case using Cons.IH [of True s1] s1 by simp
qed

section \<open>The work request leaves the pool alone and returns one of three waits\<close>

lemma spawn_task_try_keeps: "spawn_task_try cfg env job d s = (r, s') \<Longrightarrow> keeps_pool s s'"
  by (auto simp: spawn_task_try_def keeps_pool_def emit_def Let_def proj_append
      split: prod.splits sum.splits if_splits)

lemma spawn_task_keeps: "spawn_task cfg env job d s = (r, s') \<Longrightarrow> keeps_pool s s'"
  by (auto simp: spawn_task_def emit_def keeps_pool_def proj_append
      dest!: spawn_task_try_keeps split: prod.splits sum.splits)

lemma dispatch_jobs_keeps: "dispatch_jobs cfg env d jobs did s = (r, s') \<Longrightarrow> keeps_pool s s'"
proof (induction jobs arbitrary: did s)
  case Nil
  then show ?case by (simp add: keeps_pool_refl)
next
  case (Cons job jobs)
  obtain s1 where s1: "spawn_task cfg env job d s = (Inr (), s1)"
    using spawn_task_returns [of cfg env job d s] by (cases "spawn_task cfg env job d s") auto
  have "dispatch_jobs cfg env d jobs True s1 = (r, s')" using Cons.prems s1 by simp
  then have "keeps_pool s1 s'" by (rule Cons.IH)
  moreover have "keeps_pool s s1" using s1 by (rule spawn_task_keeps)
  ultimately show ?case using keeps_pool_trans by blast
qed

lemma handle_status_200_keeps: "handle_status_200 cfg env resp d s = (r, s') \<Longrightarrow> keeps_pool s s'"
  by (auto simp: handle_status_200_def emit_def keeps_pool_def proj_append
      dest!: dispatch_jobs_keeps split: sum.splits json.splits prod.splits if_splits)

lemma handle_status_400_keeps: "handle_status_400 cfg resp s = (r, s') \<Longrightarrow> keeps_pool s s'"
  by (auto simp: handle_status_400_def emit_def keeps_pool_def proj_append split: sum.splits)

lemma handle_status_400_raises:
  "status resp = 400 \<Longrightarrow> handle_status_400 cfg resp s = (r, s') \<Longrightarrow> \<exists>e. r = Inl e"
  by (auto simp: handle_status_400_def raise_for_status_def split: sum.splits)

lemma ask_for_work_try_keeps: "ask_for_work_try cfg env d mem s = (r, s') \<Longrightarrow> keeps_pool s s'"
  by (auto simp: ask_for_work_try_def emit_def Let_def keeps_pool_def proj_append
      dest!: handle_status_200_keeps handle_status_400_keeps
      split: sum.splits prod.splits if_splits)

lemma ask_for_work_except_keeps: "ask_for_work_except e s = (r, s') \<Longrightarrow> keeps_pool s s'"
  by (auto simp: ask_for_work_except_def emit_def keeps_pool_def proj_append split: if_splits)

lemma ask_for_work_except_returns: "ask_for_work_except e s = (r, s') \<Longrightarrow> r = Inr 121"
  by (auto simp: ask_for_work_except_def split: if_splits)

lemma ask_for_work_keeps: "ask_for_work cfg env d s = (r, s') \<Longrightarrow> keeps_pool s s'"
  by (auto simp: ask_for_work_def emit_def Let_def keeps_pool_def proj_append
      dest!: ask_for_work_try_keeps ask_for_work_except_keeps
      split: sum.splits prod.splits)

lemma handle_status_200_waits:
  "handle_status_200 cfg env resp d s = (Inr w, s') \<Longrightarrow> w = 0 \<or> w = 11"
  by (auto simp: handle_status_200_def split: sum.splits json.splits prod.splits if_splits)

lemma ask_for_work_try_waits:
  "ask_for_work_try cfg env d mem s = (Inr w, s') \<Longrightarrow> w = 0 \<or> w = 11"
  by (auto simp: ask_for_work_try_def Let_def dest: handle_status_200_waits
      split: sum.splits prod.splits if_splits)

lemma ask_for_work_waits:
  "ask_for_work cfg env d s = (Inr w, s') \<Longrightarrow> w = 0 \<or> w = 11 \<or> w = 121"
  by (auto simp: ask_for_work_def Let_def
      dest: ask_for_work_try_waits ask_for_work_except_returns
      split: sum.splits prod.splits)

section \<open>The pool over one pass and over the loop\<close>

lemma mset_remove_nth:
  "i < length xs \<Longrightarrow> mset (take i xs @ drop (Suc i) xs) + {#xs ! i#} = mset xs"
proof -
  assume "i < length xs"
  then have "xs = take i xs @ xs ! i # drop (Suc i) xs" by (rule id_take_nth_drop)
  then have "mset xs = mset (take i xs @ xs ! i # drop (Suc i) xs)" by simp
  then show ?thesis by simp
qed

lemma remove_device_from_pool_Some:
  assumes "remove_device_from_pool env s = Some (d, s1)"
  shows "mset (pool s1) + {#d#} = mset (pool s)" and "trace s1 = trace s @ [PoolRemove d]"
    and "world s1 = world s" and "d \<in> set (pool s)"
  using assms mset_remove_nth [of "pick env (pool s) mod length (pool s)" "pool s"]
  by (auto simp: remove_device_from_pool_def Let_def split: if_splits)

lemma remove_device_from_pool_None: "(remove_device_from_pool env s = None) = (pool s = [])"
  by (simp add: remove_device_from_pool_def Let_def)

lemma poll_iteration_blocks: "(poll_iteration cfg env wait s = None) = (pool s = [])"
  using remove_device_from_pool_None [of env "emit (Sleep wait) s"]
  by (auto simp: poll_iteration_def emit_def split: option.splits prod.splits sum.splits)

lemma poll_iteration_lease:
  assumes "poll_iteration cfg env wait s = Some (wait', s')"
  shows "\<exists>d tr. d \<in> set (pool s)
           \<and> trace s' = trace s @ [Sleep wait, PoolRemove d] @ tr @ [PoolAdd d]
           \<and> pool_adds tr = [] \<and> pool_removes tr = []
           \<and> mset (pool s') = mset (pool s)"
proof -
  obtain d s1 where rm: "remove_device_from_pool env (emit (Sleep wait) s) = Some (d, s1)"
    using assms by (auto simp: poll_iteration_def split: option.splits)
  have p1: "mset (pool s1) + {#d#} = mset (pool s)" and t1: "trace s1 = trace s @ [Sleep wait, PoolRemove d]"
    and d: "d \<in> set (pool s)"
    using remove_device_from_pool_Some [OF rm] by (simp_all add: emit_def)
  obtain r s2 where ask: "ask_for_work cfg env d s1 = (r, s2)"
    by (cases "ask_for_work cfg env d s1") auto
  have "keeps_pool s1 s2" using ask by (rule ask_for_work_keeps)
  then obtain tr where p2: "pool s2 = pool s1" and t2: "trace s2 = trace s1 @ tr"
    and tr: "pool_adds tr = []" "pool_removes tr = []"
    by (auto simp: keeps_pool_def)
  show ?thesis
  proof (cases r)
    case (Inl e)
    then have s': "s' = add_device_to_pool d (emit (Print (LoopError e)) s2)"
      using assms rm ask by (simp add: poll_iteration_def)
    have "trace s' = trace s @ [Sleep wait, PoolRemove d] @ (tr @ [Print (LoopError e)]) @ [PoolAdd d]"
      using s' t1 t2 by (simp add: add_device_to_pool_def emit_def)
    moreover have "pool_adds (tr @ [Print (LoopError e)]) = []"
      "pool_removes (tr @ [Print (LoopError e)]) = []"
      using tr by (simp_all add: proj_append)
    moreover have "mset (pool s') = mset (pool s)"
      using s' p1 p2 by (simp add: add_device_to_pool_def emit_def)
    ultimately show ?thesis using d by blast
  next
    case (Inr w)
    then have s': "s' = add_device_to_pool d s2"
      using assms rm ask by (simp add: poll_iteration_def)
    have "trace s' = trace s @ [Sleep wait, PoolRemove d] @ tr @ [PoolAdd d]"
      using s' t1 t2 by (simp add: add_device_to_pool_def)
    moreover have "mset (pool s') = mset (pool s)"
      using s' p1 p2 by (simp add: add_device_to_pool_def)
    ultimately show ?thesis using d tr by blast
  qed
qed

lemma poll_iteration_pool:
  "poll_iteration cfg env wait s = Some (wait', s') \<Longrightarrow> mset (pool s') = mset (pool s)"
  using poll_iteration_lease by blast

lemma poll_loop_pool:
  "poll_loop n cfg env wait s = Some (wait', s') \<Longrightarrow> mset (pool s') = mset (pool s)"
proof (induction n arbitrary: wait s)
  case 0
  then show ?case by simp
next
  case (Suc n)
  then obtain w1 s1 where it: "poll_iteration cfg env wait s = Some (w1, s1)"
    and rest: "poll_loop n cfg env w1 s1 = Some (wait', s')"
    by (auto split: option.splits)
  show ?case using Suc.IH [OF rest] poll_iteration_pool [OF it] by simp
qed

lemma poll_loop_runs:
  "pool s \<noteq> [] \<Longrightarrow> \<exists>wait' s'. poll_loop n cfg env wait s = Some (wait', s')"
proof (induction n arbitrary: wait s)
  case 0
  show ?case by simp
next
  case (Suc n)
  then obtain w1 s1 where it: "poll_iteration cfg env wait s = Some (w1, s1)"
    using poll_iteration_blocks [of cfg env wait s] by (cases "poll_iteration cfg env wait s") auto
  have "mset (pool s1) = mset (pool s)" using it by (rule poll_iteration_pool)
  then have "pool s1 \<noteq> []" using Suc.prems by (metis mset_zero_iff)
  then show ?case using Suc.IH [of s1 w1] it by simp
qed

lemma poll_iteration_waits:
  "poll_iteration cfg env wait s = Some (wait', s') \<Longrightarrow> wait' = 0 \<or> wait' = 11 \<or> wait' = 121"
  by (auto simp: poll_iteration_def dest: ask_for_work_waits
      split: option.splits prod.splits sum.splits)

section \<open>What a response leads to\<close>

lemma map_of_Some_key: "map_of kv k = Some v \<Longrightarrow> k \<in> fst ` set kv"
  by (metis map_of_eq_None_iff option.distinct(1))

lemma handle_status_200_jobs:
  assumes "json_body resp = Inr (JDict kv)" and "map_of kv ''jobs'' = Some (JList jobs)"
  shows "handle_status_200 cfg env resp d s =
           (Inr (if jobs = [] then 11 else 0), snd (dispatch_jobs cfg env d jobs False s))"
proof -
  have "fst (dispatch_jobs cfg env d jobs False s) = Inr (jobs \<noteq> [])"
    using dispatch_jobs_returns [of cfg env d jobs False s] by simp
  then obtain s1 where "dispatch_jobs cfg env d jobs False s = (Inr (jobs \<noteq> []), s1)"
    by (cases "dispatch_jobs cfg env d jobs False s") auto
  then show ?thesis
    using assms map_of_Some_key [OF assms(2)] by (simp add: handle_status_200_def)
qed

lemma handle_status_200_not_json:
  assumes "json_body resp = Inl (JSONDecodeError m)" and "text_body resp = Inr t"
  shows "handle_status_200 cfg env resp d s = (Inr 11, emit (Print (DecodeError t)) s)"
  using assms by (simp add: handle_status_200_def)

lemma handle_status_200_missing:
  assumes "json_body resp = Inr (JDict kv)" and "map_of kv ''jobs'' = None"
  shows "handle_status_200 cfg env resp d s = (Inr 11, emit (Print JobsMissing) s)"
  using assms by (simp add: handle_status_200_def map_of_eq_None_iff)

lemma handle_status_200_not_list:
  assumes "json_body resp = Inr (JDict kv)" and "map_of kv ''jobs'' = Some v" and "\<not> is_list v"
  shows "handle_status_200 cfg env resp d s = (Inr 11, emit (Print JobsNotList) s)"
  using assms map_of_Some_key [OF assms(2)]
  by (cases v) (simp_all add: handle_status_200_def)

text \<open>The state in which the response is handled.\<close>

lemma ask_for_work_200:
  assumes "mem_get_info env (device_id d) (world s) = (Inr mem, w1)"
    and "session_get env (work_request cfg d mem) w1 = (Inr resp, w2)"
    and "status resp = 200"
    and "handle_status_200 cfg env resp d
           (s\<lparr>world := w2,
              trace := trace s @ [Print (AskingForWork (device_id d) (hive_uri cfg)),
                                  MemGetInfo (device_id d), HttpGet (work_request cfg d mem)]\<rparr>)
         = (Inr w, s')"
  shows "ask_for_work cfg env d s = (Inr w, s')"
  using assms by (simp add: ask_for_work_def ask_for_work_try_def emit_def Let_def)

lemma ask_for_work_raised:
  assumes "mem_get_info env (device_id d) (world s) = (Inr mem, w1)"
    and "ask_for_work_try cfg env d mem
           (s\<lparr>world := w1,
              trace := trace s @ [Print (AskingForWork (device_id d) (hive_uri cfg)),
                                  MemGetInfo (device_id d)]\<rparr>) = (Inl e, s2)"
  shows "ask_for_work cfg env d s = ask_for_work_except e s2"
  using assms by (simp add: ask_for_work_def emit_def Let_def)

section \<open>Jobs of a well-formed response\<close>

text \<open>
  C3. When the hive answers 200 with a body that decodes to an object whose \<^verbatim>\<open>jobs\<close>
  field is a list, \<^verbatim>\<open>ask_for_work\<close> calls the computation once for every element of
  the list, in the order of the list, for the leased device, and returns 0 when the list
  has an element and 11 when it has none. This holds whatever the computation and the
  results endpoint do.
\<close>

theorem jobs_dispatched_in_order:
  assumes "mem_get_info env (device_id d) (world s) = (Inr mem, w1)"
    and "session_get env (work_request cfg d mem) w1 = (Inr resp, w2)"
    and "status resp = 200"
    and "json_body resp = Inr (JDict kv)"
    and "map_of kv ''jobs'' = Some (JList jobs)"
  shows "fst (ask_for_work cfg env d s) = Inr (if jobs = [] then 11 else 0)
         \<and> dispatched (trace (snd (ask_for_work cfg env d s)))
             = dispatched (trace s) @ map (\<lambda>job. (job, d)) jobs"
proof -
  let ?s1 = "s\<lparr>world := w2,
               trace := trace s @ [Print (AskingForWork (device_id d) (hive_uri cfg)),
                                   MemGetInfo (device_id d), HttpGet (work_request cfg d mem)]\<rparr>"
  let ?s2 = "snd (dispatch_jobs cfg env d jobs False ?s1)"
  have "handle_status_200 cfg env resp d ?s1 = (Inr (if jobs = [] then 11 else 0), ?s2)"
    using assms(4,5) by (rule handle_status_200_jobs)
  then have ask: "ask_for_work cfg env d s = (Inr (if jobs = [] then 11 else 0), ?s2)"
    by (rule ask_for_work_200 [OF assms(1,2,3)])
  have "dispatched (trace ?s2) = dispatched (trace ?s1) @ map (\<lambda>job. (job, d)) jobs"
    by (rule dispatch_jobs_dispatched)
  then show ?thesis using ask by (simp add: proj_append)
qed

theorem jobs_dispatched_in_order_witness:
  "fst (ask_for_work cfg0 env_jobs (Device 0) st0) = Inr 0
   \<and> dispatched (trace (snd (ask_for_work cfg0 env_jobs (Device 0) st0)))
       = [(JStr ''j1'', Device 0), (JStr ''j2'', Device 0)]
   \<and> fst (ask_for_work cfg0 env_no_work (Device 0) st0) = Inr 11
   \<and> dispatched (trace (snd (ask_for_work cfg0 env_no_work (Device 0) st0))) = []"
proof -
  have a: "mem_get_info env_jobs (device_id (Device 0)) (world st0) = (Inr (1000, 8000), 1)"
    by (simp add: env_jobs_def fixed_env_def mem0_def st0_def)
  have b: "session_get env_jobs (work_request cfg0 (Device 0) (1000, 8000)) 1
             = (Inr (ok_response (JDict [(''jobs'', JList [JStr ''j1'', JStr ''j2''])])), 2)"
    by (simp add: env_jobs_def fixed_env_def)
  have c: "mem_get_info env_no_work (device_id (Device 0)) (world st0) = (Inr (1000, 8000), 1)"
    by (simp add: env_no_work_def fixed_env_def mem0_def st0_def)
  have d: "session_get env_no_work (work_request cfg0 (Device 0) (1000, 8000)) 1
             = (Inr (ok_response (JDict [(''jobs'', JList [])])), 2)"
    by (simp add: env_no_work_def fixed_env_def)
  have "fst (ask_for_work cfg0 env_jobs (Device 0) st0) = Inr 0
        \<and> dispatched (trace (snd (ask_for_work cfg0 env_jobs (Device 0) st0)))
            = [(JStr ''j1'', Device 0), (JStr ''j2'', Device 0)]"
    using jobs_dispatched_in_order [OF a b, of "[(''jobs'', JList [JStr ''j1'', JStr ''j2''])]"
        "[JStr ''j1'', JStr ''j2'']"]
    by (simp add: ok_response_def st0_def)
  moreover have "fst (ask_for_work cfg0 env_no_work (Device 0) st0) = Inr 11
        \<and> dispatched (trace (snd (ask_for_work cfg0 env_no_work (Device 0) st0))) = []"
    using jobs_dispatched_in_order [OF c d, of "[(''jobs'', JList [])]" "[]"]
    by (simp add: ok_response_def st0_def)
  ultimately show ?thesis by simp
qed

section \<open>Malformed answers to the work request\<close>

lemma quiet_outcome_200:
  assumes "mem_get_info env (device_id d) (world s) = (Inr mem, w1)"
    and "session_get env (work_request cfg d mem) w1 = (Inr resp, w2)"
    and "status resp = 200"
    and "\<And>s0. handle_status_200 cfg env resp d s0 = (Inr w, emit (Print m) s0)"
  shows "quiet_outcome cfg env d s w [m]"
proof -
  let ?s1 = "s\<lparr>world := w2,
               trace := trace s @ [Print (AskingForWork (device_id d) (hive_uri cfg)),
                                   MemGetInfo (device_id d), HttpGet (work_request cfg d mem)]\<rparr>"
  have "ask_for_work cfg env d s = (Inr w, emit (Print m) ?s1)"
    using assms(4) [of ?s1] by (rule ask_for_work_200 [OF assms(1,2,3)])
  then show ?thesis by (simp add: quiet_outcome_def emit_def proj_append)
qed

lemma mem0_query: "mem_get_info (fixed_env mem0 got work posted) i w = (Inr (1000, 8000), Suc w)"
  by (simp add: fixed_env_def mem0_def)

lemma fixed_get: "session_get (fixed_env mem got work posted) req w = (got, Suc w)"
  by (simp add: fixed_env_def)

text \<open>
  Where the checks of \<^verbatim>\<open>handle_status_200\<close> do what they are written for: when the
  hive answers 200 and either decoding the body raises a JSON decode error (the text of
  the body being readable), or the decoded body is an object with no \<^verbatim>\<open>jobs\<close> field,
  or it is an object whose \<^verbatim>\<open>jobs\<close> field is not a list, then \<^verbatim>\<open>ask_for_work\<close>
  returns 11, prints the problem, raises nothing and dispatches no job.
\<close>

lemma malformed_body_short_wait:
  assumes "mem_get_info env (device_id d) (world s) = (Inr mem, w1)"
    and "session_get env (work_request cfg d mem) w1 = (Inr resp, w2)"
    and "status resp = 200"
  shows "(json_body resp = Inl (JSONDecodeError m) \<and> text_body resp = Inr t
            \<longrightarrow> quiet_outcome cfg env d s 11 [DecodeError t])
       \<and> (json_body resp = Inr (JDict kv) \<and> map_of kv ''jobs'' = None
            \<longrightarrow> quiet_outcome cfg env d s 11 [JobsMissing])
       \<and> (json_body resp = Inr (JDict kv) \<and> map_of kv ''jobs'' = Some v \<and> \<not> is_list v
            \<longrightarrow> quiet_outcome cfg env d s 11 [JobsNotList])"
  using quiet_outcome_200 [OF assms, of 11]
    handle_status_200_not_json [of resp m t cfg env d]
    handle_status_200_missing [of resp kv cfg env d]
    handle_status_200_not_list [of resp kv v cfg env d]
  by blast

lemma malformed_body_short_wait_examples:
  "quiet_outcome cfg0 env_not_json (Device 0) st0 11 [DecodeError ''<html>'']
   \<and> quiet_outcome cfg0 env_no_jobs_field (Device 0) st0 11 [JobsMissing]
   \<and> quiet_outcome cfg0 env_jobs_not_list (Device 0) st0 11 [JobsNotList]"
proof -
  have "quiet_outcome cfg0 env_not_json (Device 0) st0 11 [DecodeError ''<html>'']"
    using malformed_body_short_wait [of env_not_json "Device 0" st0 "(1000, 8000)" "Suc (world st0)" cfg0
        "\<lparr> status = 200, json_body = Inl (JSONDecodeError ''Expecting value''),
            text_body = Inr ''<html>'' \<rparr>" "Suc (Suc (world st0))" "''Expecting value''" "''<html>''"]
    by (simp add: env_not_json_def mem0_query fixed_get)
  moreover have "quiet_outcome cfg0 env_no_jobs_field (Device 0) st0 11 [JobsMissing]"
    using malformed_body_short_wait [of env_no_jobs_field "Device 0" st0 "(1000, 8000)"
        "Suc (world st0)" cfg0 "ok_response (JDict [(''error'', JStr ''busy'')])"
        "Suc (Suc (world st0))" _ _ "[(''error'', JStr ''busy'')]"]
    by (simp add: env_no_jobs_field_def mem0_query fixed_get ok_response_def)
  moreover have "quiet_outcome cfg0 env_jobs_not_list (Device 0) st0 11 [JobsNotList]"
    using malformed_body_short_wait [of env_jobs_not_list "Device 0" st0 "(1000, 8000)"
        "Suc (world st0)" cfg0 "ok_response (JDict [(''jobs'', JStr ''none'')])"
        "Suc (Suc (world st0))" _ _ "[(''jobs'', JStr ''none'')]" "JStr ''none''"]
    by (simp add: env_jobs_not_list_def mem0_query fixed_get ok_response_def)
  ultimately show ?thesis by simp
qed

text \<open>
  C4. The claim asks for the wait 11, a printed problem and no raise for every answer 200
  whose body is not an object with a \<^verbatim>\<open>jobs\<close> list. The checks of
  \<^verbatim>\<open>handle_status_200\<close> are written for that and miss one case: a decoded body that is
  neither an object, a list nor a string. An answer 200 with an empty body or the body
  \<^verbatim>\<open>null\<close> decodes to \<^verbatim>\<open>None\<close>; there the test \<^verbatim>\<open>"jobs" not in response_dict\<close>
  itself raises \<^verbatim>\<open>TypeError\<close>, which only the last handler of \<^verbatim>\<open>ask_for_work\<close>
  catches: the code prints an unknown error and returns 121. The neighbouring inputs,
  an object without \<^verbatim>\<open>jobs\<close> and a list, print that the field is missing and
  return 11.
\<close>

theorem null_body_long_wait:
  "quiet_outcome cfg0 env_null (Device 0) st0 121
     [UnknownError (TypeError ''argument is not iterable'')]
   \<and> quiet_outcome cfg0 env_no_jobs_field (Device 0) st0 11 [JobsMissing]
   \<and> quiet_outcome cfg0 env_list_body (Device 0) st0 11 [JobsMissing]"
  by (simp add: quiet_outcome_def ask_for_work_def ask_for_work_try_def ask_for_work_except_def
      handle_status_200_def env_null_def env_no_jobs_field_def env_list_body_def fixed_env_def
      mem0_def ok_response_def st0_def emit_def Let_def)

section \<open>One pass of the loop, given the lease and the answer\<close>

lemma poll_iteration_result:
  assumes "remove_device_from_pool env (emit (Sleep wait) s) = Some (d, s1)"
    and "ask_for_work cfg env d s1 = (r, s2)"
  shows "poll_iteration cfg env wait s =
           Some (case r of
                   Inr w \<Rightarrow> (w, add_device_to_pool d s2)
                 | Inl e \<Rightarrow> (121, add_device_to_pool d (emit (Print (LoopError e)) s2)))"
  using assms by (simp add: poll_iteration_def split: sum.splits)

lemma poll_iteration_released:
  assumes rm: "remove_device_from_pool env (emit (Sleep wait) s) = Some (d, s1)"
    and it: "poll_iteration cfg env wait s = Some (wait', s')"
  shows "mset (pool s') = mset (pool s)
         \<and> pool_removes (trace s') = pool_removes (trace s) @ [d]
         \<and> pool_adds (trace s') = pool_adds (trace s) @ [d]
         \<and> last (trace s') = PoolAdd d"
proof -
  have p1: "mset (pool s1) + {#d#} = mset (pool s)"
    and t1: "trace s1 = trace s @ [Sleep wait, PoolRemove d]"
    using remove_device_from_pool_Some [OF rm] by (simp_all add: emit_def)
  obtain r s2 where ask: "ask_for_work cfg env d s1 = (r, s2)"
    by (cases "ask_for_work cfg env d s1") auto
  have "keeps_pool s1 s2" using ask by (rule ask_for_work_keeps)
  then obtain tr where p2: "pool s2 = pool s1" and t2: "trace s2 = trace s1 @ tr"
    and tr: "pool_adds tr = []" "pool_removes tr = []"
    by (auto simp: keeps_pool_def)
  show ?thesis
    using poll_iteration_result [OF rm ask] it p1 p2 t1 t2 tr
    by (cases r) (auto simp: add_device_to_pool_def emit_def proj_append)
qed

section \<open>A rejected request\<close>

lemma handle_status_400_dict:
  assumes "status resp = 400" and "json_body resp = Inr (JDict kv)"
  shows "handle_status_400 cfg resp s =
           (Inl (ClientResponseError 400),
            emit (Print (HiveSays (hive_uri cfg)
                   (case map_of kv ''message'' of None \<Rightarrow> JStr ''bad worker'' | Some m \<Rightarrow> m))) s)"
  using assms by (simp add: handle_status_400_def raise_for_status_def split: option.splits)

lemma ask_for_work_try_400:
  assumes "session_get env (work_request cfg d mem) (world s) = (Inr resp, w2)"
    and "status resp = 400"
  shows "ask_for_work_try cfg env d mem s =
           (case handle_status_400 cfg resp
                   (s\<lparr>world := w2, trace := trace s @ [HttpGet (work_request cfg d mem)]\<rparr>) of
              (Inl e, s2) \<Rightarrow> (Inl e, s2)
            | (Inr u, s2) \<Rightarrow> (Inr 11, s2))"
  using assms by (simp add: ask_for_work_try_def Let_def)

lemma ask_for_work_400:
  assumes mem: "mem_get_info env (device_id d) (world s) = (Inr mem, w1)"
    and get: "session_get env (work_request cfg d mem) w1 = (Inr resp, w2)"
    and st: "status resp = 400"
  shows "fst (ask_for_work cfg env d s) = Inr 121"
proof -
  let ?s1 = "s\<lparr>world := w1,
               trace := trace s @ [Print (AskingForWork (device_id d) (hive_uri cfg)),
                                   MemGetInfo (device_id d)]\<rparr>"
  let ?s2 = "?s1\<lparr>world := w2, trace := trace ?s1 @ [HttpGet (work_request cfg d mem)]\<rparr>"
  obtain r s3 where h: "handle_status_400 cfg resp ?s2 = (r, s3)"
    by (cases "handle_status_400 cfg resp ?s2") auto
  then obtain e where "r = Inl e" using handle_status_400_raises [OF st h] by blast
  then have "ask_for_work_try cfg env d mem ?s1 = (Inl e, s3)"
    using ask_for_work_try_400 [of env cfg d mem ?s1 resp w2] get st h by simp
  then have "ask_for_work cfg env d s = ask_for_work_except e s3"
    by (rule ask_for_work_raised [OF mem])
  then show ?thesis
    using ask_for_work_except_returns [of e s3] by (cases "ask_for_work_except e s3") auto
qed

lemma ask_for_work_400_dict:
  assumes mem: "mem_get_info env (device_id d) (world s) = (Inr mem, w1)"
    and get: "session_get env (work_request cfg d mem) w1 = (Inr resp, w2)"
    and st: "status resp = 400"
    and js: "json_body resp = Inr (JDict kv)"
  shows "quiet_outcome cfg env d s 121
           [HiveSays (hive_uri cfg)
              (case map_of kv ''message'' of None \<Rightarrow> JStr ''bad worker'' | Some m \<Rightarrow> m),
            RequestFailed (ClientResponseError 400)]"
proof -
  let ?s1 = "s\<lparr>world := w1,
               trace := trace s @ [Print (AskingForWork (device_id d) (hive_uri cfg)),
                                   MemGetInfo (device_id d)]\<rparr>"
  let ?s2 = "?s1\<lparr>world := w2, trace := trace ?s1 @ [HttpGet (work_request cfg d mem)]\<rparr>"
  let ?m = "HiveSays (hive_uri cfg)
              (case map_of kv ''message'' of None \<Rightarrow> JStr ''bad worker'' | Some m \<Rightarrow> m)"
  have "ask_for_work_try cfg env d mem ?s1 = (Inl (ClientResponseError 400), emit (Print ?m) ?s2)"
    using ask_for_work_try_400 [of env cfg d mem ?s1 resp w2] get st
      handle_status_400_dict [OF st js, of cfg ?s2] by simp
  then have "ask_for_work cfg env d s
               = ask_for_work_except (ClientResponseError 400) (emit (Print ?m) ?s2)"
    by (rule ask_for_work_raised [OF mem])
  then show ?thesis
    by (simp add: quiet_outcome_def ask_for_work_except_def emit_def proj_append)
qed

lemma ask_for_work_except_eq:
  "ask_for_work_except e s = (Inr 121, emit (Print (handler_msg e)) s)"
  by (simp add: ask_for_work_except_def handler_msg_def)

lemma ask_for_work_caught:
  assumes "mem_get_info env (device_id d) (world s) = (Inr mem, w1)"
    and "ask_for_work_try cfg env d mem
           (s\<lparr>world := w1,
              trace := trace s @ [Print (AskingForWork (device_id d) (hive_uri cfg)),
                                  MemGetInfo (device_id d)]\<rparr>) = (Inl e, s2)"
  shows "ask_for_work cfg env d s = (Inr 121, emit (Print (handler_msg e)) s2)"
  using ask_for_work_raised [OF assms] by (simp add: ask_for_work_except_eq)

lemma handle_status_400_undecoded:
  "json_body resp = Inl e \<Longrightarrow> handle_status_400 cfg resp s = (Inl e, s)"
  by (simp add: handle_status_400_def)

lemma handle_status_400_not_dict:
  assumes "json_body resp = Inr v" and "\<not> is_dict v"
  shows "\<exists>e. handle_status_400 cfg resp s = (Inl e, s) \<and> handler_msg e = UnknownError e"
  using assms by (cases v) (simp_all add: handle_status_400_def handler_msg_def)

lemma ask_for_work_400_failed:
  fixes s :: "'w state"
  assumes mem: "mem_get_info env (device_id d) (world s) = (Inr mem, w1)"
    and get: "session_get env (work_request cfg d mem) w1 = (Inr resp, w2)"
    and st: "status resp = 400"
    and h: "\<And>s0 :: 'w state. handle_status_400 cfg resp s0 = (Inl e, s0)"
  shows "quiet_outcome cfg env d s 121 [handler_msg e]"
proof -
  let ?s1 = "s\<lparr>world := w1,
               trace := trace s @ [Print (AskingForWork (device_id d) (hive_uri cfg)),
                                   MemGetInfo (device_id d)]\<rparr>"
  let ?s2 = "?s1\<lparr>world := w2, trace := trace ?s1 @ [HttpGet (work_request cfg d mem)]\<rparr>"
  have "ask_for_work_try cfg env d mem ?s1 = (Inl e, ?s2)"
    using ask_for_work_try_400 [of env cfg d mem ?s1 resp w2] get st h [of ?s2] by simp
  then have "ask_for_work cfg env d s = (Inr 121, emit (Print (handler_msg e)) ?s2)"
    by (rule ask_for_work_caught [OF mem])
  then show ?thesis by (simp add: quiet_outcome_def emit_def proj_append)
qed

lemma st0_lease:
  "remove_device_from_pool (fixed_env mem got work posted) (emit (Sleep wait) st0)
     = Some (Device 0, \<lparr> pool = [], world = 0, trace = [Sleep wait, PoolRemove (Device 0)] \<rparr>)"
  by (simp add: remove_device_from_pool_def fixed_env_def st0_def emit_def Let_def)

text \<open>
  C2, as the code has it. When the hive answers 400, no error leaves
  \<^verbatim>\<open>ask_for_work\<close>: it returns the wait 121, and the pass of the loop ends with the next
  wait 121 and with the leased device back in the pool. When the body decodes to an
  object, \<^verbatim>\<open>handle_status_400\<close> prints its \<^verbatim>\<open>message\<close> field (\<^verbatim>\<open>bad worker\<close> when
  there is none) and \<^verbatim>\<open>raise_for_status\<close> raises a \<^verbatim>\<open>ClientResponseError\<close>, which the
  handler for \<^verbatim>\<open>aiohttp.ClientError\<close> catches and prints. When decoding the body raises,
  or the decoded body is not an object, no message is printed and
  \<^verbatim>\<open>raise_for_status\<close> is not reached: the exception of the decoding, or of
  \<^verbatim>\<open>pop\<close>, is caught and printed by the handler of its class.
\<close>

theorem bad_request_backs_off:
  fixes s :: "'w state"
  assumes rm: "remove_device_from_pool env (emit (Sleep wait) s) = Some (d, s1)"
    and mem: "mem_get_info env (device_id d) (world s1) = (Inr mem, w1)"
    and get: "session_get env (work_request cfg d mem) w1 = (Inr resp, w2)"
    and st: "status resp = 400"
  shows "fst (ask_for_work cfg env d s1) = Inr 121
       \<and> (json_body resp = Inr (JDict kv) \<longrightarrow>
            quiet_outcome cfg env d s1 121
              [HiveSays (hive_uri cfg)
                 (case map_of kv ''message'' of None \<Rightarrow> JStr ''bad worker'' | Some m \<Rightarrow> m),
               RequestFailed (ClientResponseError 400)])
       \<and> (json_body resp = Inl e \<longrightarrow> quiet_outcome cfg env d s1 121 [handler_msg e])
       \<and> (json_body resp = Inr v \<and> \<not> is_dict v \<longrightarrow>
            (\<exists>e'. quiet_outcome cfg env d s1 121 [UnknownError e']))
       \<and> (\<exists>s'. poll_iteration cfg env wait s = Some (121, s')
              \<and> mset (pool s') = mset (pool s)
              \<and> pool_adds (trace s') = pool_adds (trace s) @ [d]
              \<and> last (trace s') = PoolAdd d)"
proof -
  have a: "fst (ask_for_work cfg env d s1) = Inr 121"
    using mem get st by (rule ask_for_work_400)
  then obtain s2 where ask: "ask_for_work cfg env d s1 = (Inr 121, s2)"
    by (cases "ask_for_work cfg env d s1") auto
  have it: "poll_iteration cfg env wait s = Some (121, add_device_to_pool d s2)"
    using poll_iteration_result [OF rm ask] by simp
  have b: "quiet_outcome cfg env d s1 121 [handler_msg e]" if "json_body resp = Inl e"
    using ask_for_work_400_failed [OF mem get st] handle_status_400_undecoded [OF that] by blast
  have c: "\<exists>e'. quiet_outcome cfg env d s1 121 [UnknownError e']"
    if v: "json_body resp = Inr v" "\<not> is_dict v"
  proof -
    obtain e' where h: "handle_status_400 cfg resp s1 = (Inl e', s1)"
      and m: "handler_msg e' = UnknownError e'"
      using handle_status_400_not_dict [OF v] by blast
    have "handle_status_400 cfg resp s0 = (Inl e', s0)" for s0 :: "'w state"
      using h v by (cases v) (auto simp: handle_status_400_def)
    then have "quiet_outcome cfg env d s1 121 [handler_msg e']"
      by (rule ask_for_work_400_failed [OF mem get st])
    then show ?thesis using m by auto
  qed
  show ?thesis
    using a ask_for_work_400_dict [OF mem get st] b c it poll_iteration_released [OF rm it]
    by blast
qed

theorem bad_request_backs_off_witness:
  "quiet_outcome cfg0 env_400 (Device 0)
     \<lparr> pool = [], world = 0, trace = [Sleep 0, PoolRemove (Device 0)] \<rparr> 121
     [HiveSays ''https://hive.example/api'' (JStr ''rate limited''),
      RequestFailed (ClientResponseError 400)]
   \<and> (\<exists>s'. poll_iteration cfg0 env_400 0 st0 = Some (121, s')
          \<and> mset (pool s') = mset (pool st0)
          \<and> pool_adds (trace s') = pool_adds (trace st0) @ [Device 0]
          \<and> last (trace s') = PoolAdd (Device 0))
   \<and> quiet_outcome cfg0 env_400_not_json (Device 0)
       \<lparr> pool = [], world = 0, trace = [Sleep 0, PoolRemove (Device 0)] \<rparr> 121
       [RequestFailed (ClientError ''unexpected mimetype: text/html'')]
   \<and> (\<exists>e'. quiet_outcome cfg0 env_400_null (Device 0)
       \<lparr> pool = [], world = 0, trace = [Sleep 0, PoolRemove (Device 0)] \<rparr> 121
       [UnknownError e'])"
proof -
  let ?leased = "\<lparr> pool = [], world = 0, trace = [Sleep 0, PoolRemove (Device 0)] \<rparr> :: nat state"
  have one: "quiet_outcome cfg0 env_400 (Device 0) ?leased 121
     [HiveSays ''https://hive.example/api'' (JStr ''rate limited''),
      RequestFailed (ClientResponseError 400)]
   \<and> (\<exists>s'. poll_iteration cfg0 env_400 0 st0 = Some (121, s')
          \<and> mset (pool s') = mset (pool st0)
          \<and> pool_adds (trace s') = pool_adds (trace st0) @ [Device 0]
          \<and> last (trace s') = PoolAdd (Device 0))"
    using bad_request_backs_off [of env_400 0 st0 "Device 0" ?leased "(1000, 8000)" 1 cfg0
      "\<lparr> status = 400, json_body = Inr (JDict [(''message'', JStr ''rate limited'')]),
         text_body = Inr ''body'' \<rparr>" 2 "[(''message'', JStr ''rate limited'')]"]
    by (simp add: env_400_def st0_lease mem0_query fixed_get hive_uri_def rstrip_slash_def cfg0_def)
  have two: "quiet_outcome cfg0 env_400_not_json (Device 0) ?leased 121
       [RequestFailed (ClientError ''unexpected mimetype: text/html'')]"
    using bad_request_backs_off [where env = env_400_not_json and wait = 0 and s = st0
        and d = "Device 0" and ?s1.0 = ?leased and mem = "(1000, 8000)" and ?w1.0 = 1
        and cfg = cfg0 and ?w2.0 = 2 and e = "ClientError ''unexpected mimetype: text/html''"
        and resp = "\<lparr> status = 400,
                      json_body = Inl (ClientError ''unexpected mimetype: text/html''),
                      text_body = Inr ''<html>'' \<rparr>"]
    by (simp add: env_400_not_json_def st0_lease mem0_query fixed_get handler_msg_def)
  have three: "\<exists>e'. quiet_outcome cfg0 env_400_null (Device 0) ?leased 121 [UnknownError e']"
    using bad_request_backs_off [where env = env_400_null and wait = 0 and s = st0
        and d = "Device 0" and ?s1.0 = ?leased and mem = "(1000, 8000)" and ?w1.0 = 1
        and cfg = cfg0 and ?w2.0 = 2 and v = JNull
        and resp = "\<lparr> status = 400, json_body = Inr JNull, text_body = Inr [] \<rparr>"]
    by (simp add: env_400_null_def st0_lease mem0_query fixed_get)
  show ?thesis using one two three by blast
qed

text \<open>
  The claim as stated, that the error leaves the work request instead of a wait value,
  fails: for a 400 answer with the message \<^verbatim>\<open>rate limited\<close> the work request returns
  121.
\<close>

theorem bad_request_returns_normally:
  "fst (ask_for_work cfg0 env_400 (Device 0) st0) = Inr 121"
  by (simp add: ask_for_work_def ask_for_work_try_def ask_for_work_except_def
      handle_status_400_def raise_for_status_def env_400_def fixed_env_def mem0_def st0_def
      emit_def Let_def)

section \<open>The three waits\<close>

lemma poll_loop_waits:
  "poll_loop (Suc n) cfg env wait s = Some (wait', s') \<Longrightarrow> wait' = 0 \<or> wait' = 11 \<or> wait' = 121"
proof (induction n arbitrary: wait s)
  case 0
  then show ?case by (auto dest: poll_iteration_waits split: option.splits)
next
  case (Suc n)
  then obtain w1 s1 where "poll_loop (Suc n) cfg env w1 s1 = Some (wait', s')"
    by (auto split: option.splits)
  then show ?case by (rule Suc.IH)
qed

lemmas run_defs =
  ask_for_work_def ask_for_work_try_def ask_for_work_except_def handle_status_200_def
  handle_status_400_def raise_for_status_def spawn_task_def spawn_task_try_def
  poll_iteration_def remove_device_from_pool_def add_device_to_pool_def emit_def Let_def
  fixed_env_def mem0_def ok_response_def accepted_def st0_def

text \<open>
  C10. Whatever the hive, the telemetry and the computation do, a wait that
  \<^verbatim>\<open>ask_for_work\<close> returns is 0, 11 or 121, and so is \<open>wait_seconds\<close> after every
  finished pass of the loop, a pass in which the work request raised included.
\<close>

theorem waits_are_backoff_tiers:
  "(ask_for_work cfg env d s = (Inr w, s') \<longrightarrow> w \<in> {0, 11, 121})
   \<and> (poll_iteration cfg env wait s1 = Some (wait', s1') \<longrightarrow> wait' \<in> {0, 11, 121})
   \<and> (poll_loop (Suc n) cfg env wait s2 = Some (wait'', s2') \<longrightarrow> wait'' \<in> {0, 11, 121})"
  using ask_for_work_waits [of cfg env d s w s']
    poll_iteration_waits [of cfg env wait s1 wait' s1']
    poll_loop_waits [of n cfg env wait s2 wait'' s2']
  by auto

theorem waits_are_backoff_tiers_witness:
  "fst (ask_for_work cfg0 env_jobs (Device 0) st0) = Inr 0 \<and> (0::nat) \<in> {0, 11, 121}
   \<and> map_option fst (poll_iteration cfg0 env_offline 0 st0) = Some 121 \<and> (121::nat) \<in> {0, 11, 121}
   \<and> map_option fst (poll_loop (Suc 1) cfg0 env_no_work 0 st0) = Some 11 \<and> (11::nat) \<in> {0, 11, 121}"
proof -
  have a: "fst (ask_for_work cfg0 env_jobs (Device 0) st0) = Inr 0"
    by (simp add: run_defs env_jobs_def)
  have b: "map_option fst (poll_iteration cfg0 env_offline 0 st0) = Some 121"
    by (simp add: run_defs env_offline_def)
  have c: "map_option fst (poll_loop (Suc 1) cfg0 env_no_work 0 st0) = Some 11"
    by (simp add: run_defs env_no_work_def)
  have a': "ask_for_work cfg0 env_jobs (Device 0) st0
              = (Inr 0, snd (ask_for_work cfg0 env_jobs (Device 0) st0))"
    using a by (simp add: prod_eq_iff)
  have b': "poll_iteration cfg0 env_offline 0 st0
              = Some (121, snd (the (poll_iteration cfg0 env_offline 0 st0)))"
    using b by (cases "poll_iteration cfg0 env_offline 0 st0") (auto simp: prod_eq_iff)
  have c': "poll_loop (Suc 1) cfg0 env_no_work 0 st0
              = Some (11, snd (the (poll_loop (Suc 1) cfg0 env_no_work 0 st0)))"
    using c by (cases "poll_loop (Suc 1) cfg0 env_no_work 0 st0") (auto simp: prod_eq_iff)
  have "(0::nat) \<in> {0, 11, 121}"
    using waits_are_backoff_tiers [where cfg = cfg0 and env = env_jobs and d = "Device 0"
        and s = st0 and w = 0 and s' = "snd (ask_for_work cfg0 env_jobs (Device 0) st0)"] a'
    by blast
  moreover have "(121::nat) \<in> {0, 11, 121}"
    using waits_are_backoff_tiers [where cfg = cfg0 and env = env_offline and wait = 0
        and ?s1.0 = st0 and wait' = 121
        and s1' = "snd (the (poll_iteration cfg0 env_offline 0 st0))"] b'
    by blast
  moreover have "(11::nat) \<in> {0, 11, 121}"
    using waits_are_backoff_tiers [where cfg = cfg0 and env = env_no_work and wait = 0
        and n = 1 and ?s2.0 = st0 and wait'' = 11
        and s2' = "snd (the (poll_loop (Suc 1) cfg0 env_no_work 0 st0))"] c'
    by blast
  ultimately show ?thesis using a b c by blast
qed

section \<open>Failures of the exchange\<close>

lemma ask_for_work_returns:
  assumes "mem_get_info env (device_id d) (world s) = (Inr mem, w1)"
  shows "\<exists>w. fst (ask_for_work cfg env d s) = Inr w"
  using assms
  by (auto simp: ask_for_work_def Let_def emit_def ask_for_work_except_def
      split: prod.splits sum.splits)

lemma handle_status_200_body_failed:
  "json_body resp = Inl e \<Longrightarrow> \<not> is_JSONDecodeError e \<Longrightarrow>
     handle_status_200 cfg env resp d s = (Inl e, s)"
  by (simp add: handle_status_200_def)

lemma ask_for_work_get_failed:
  assumes mem: "mem_get_info env (device_id d) (world s) = (Inr mem, w1)"
    and get: "session_get env (work_request cfg d mem) w1 = (Inl e, w2)"
  shows "quiet_outcome cfg env d s 121 [handler_msg e]"
  using assms
  by (simp add: quiet_outcome_def ask_for_work_def ask_for_work_try_def ask_for_work_except_eq
      emit_def Let_def proj_append)

lemma ask_for_work_body_failed:
  assumes mem: "mem_get_info env (device_id d) (world s) = (Inr mem, w1)"
    and get: "session_get env (work_request cfg d mem) w1 = (Inr resp, w2)"
    and st: "status resp = 200"
    and js: "json_body resp = Inl e" and nd: "\<not> is_JSONDecodeError e"
  shows "quiet_outcome cfg env d s 121 [handler_msg e]"
  using assms
  by (simp add: quiet_outcome_def ask_for_work_def ask_for_work_try_def ask_for_work_except_eq
      handle_status_200_body_failed emit_def Let_def proj_append)

lemma poll_loop_counts:
  "poll_loop n cfg env wait s = Some (wait', s') \<Longrightarrow>
     length (pool_removes (trace s')) = length (pool_removes (trace s)) + n
     \<and> length (pool_adds (trace s')) = length (pool_adds (trace s)) + n"
proof (induction n arbitrary: wait s)
  case 0
  then show ?case by simp
next
  case (Suc n)
  then obtain w1 s1 where it: "poll_iteration cfg env wait s = Some (w1, s1)"
    and rest: "poll_loop n cfg env w1 s1 = Some (wait', s')"
    by (auto split: option.splits)
  obtain d tr where "trace s1 = trace s @ [Sleep wait, PoolRemove d] @ tr @ [PoolAdd d]"
    "pool_adds tr = []" "pool_removes tr = []"
    using poll_iteration_lease [OF it] by blast
  then have "length (pool_removes (trace s1)) = length (pool_removes (trace s)) + 1"
    "length (pool_adds (trace s1)) = length (pool_adds (trace s)) + 1"
    by (simp_all add: proj_append)
  then show ?case using Suc.IH [OF rest] by simp
qed

text \<open>
  C5. Every exception raised inside the \<^verbatim>\<open>try\<close> of \<^verbatim>\<open>ask_for_work\<close> is caught
  there, printed by the handler of its class, and turned into the wait 121: so it is
  when \<^verbatim>\<open>session.get\<close> raises, whether a connection failure, another client error, a
  timeout or anything else, and so it is when reading the body of the answer raises.
  Once the memory query has answered, \<^verbatim>\<open>ask_for_work\<close> does not raise. An exception
  that does leave it (the memory query stands before the \<^verbatim>\<open>try\<close>) is caught by the
  loop, which prints it, sets the next wait to 121 and returns the device. With a device
  in the pool the loop goes through any number \<open>n\<close> of passes, each with its lease and
  its release.
\<close>

theorem poll_failures_back_off:
  "(mem_get_info env (device_id d) (world s) = (Inr mem, w1)
      \<and> session_get env (work_request cfg d mem) w1 = (Inl e, w2)
      \<longrightarrow> quiet_outcome cfg env d s 121 [handler_msg e])
   \<and> (mem_get_info env (device_id d) (world s) = (Inr mem, w1)
      \<and> session_get env (work_request cfg d mem) w1 = (Inr resp, w2)
      \<and> status resp = 200 \<and> json_body resp = Inl e \<and> \<not> is_JSONDecodeError e
      \<longrightarrow> quiet_outcome cfg env d s 121 [handler_msg e])
   \<and> (mem_get_info env (device_id d) (world s) = (Inr mem, w1)
      \<and> ask_for_work_try cfg env d mem
           (s\<lparr>world := w1,
              trace := trace s @ [Print (AskingForWork (device_id d) (hive_uri cfg)),
                                  MemGetInfo (device_id d)]\<rparr>) = (Inl e, s2)
      \<longrightarrow> ask_for_work cfg env d s = (Inr 121, emit (Print (handler_msg e)) s2))
   \<and> handler_msg (ClientConnectorError m1) = ConnectFailed (ClientConnectorError m1)
   \<and> handler_msg (ClientResponseError c) = RequestFailed (ClientResponseError c)
   \<and> handler_msg (ClientError m2) = RequestFailed (ClientError m2)
   \<and> handler_msg TimeoutError = TimedOut
   \<and> handler_msg (Exception m3) = UnknownError (Exception m3)
   \<and> (mem_get_info env (device_id d) (world s) = (Inr mem, w1)
      \<longrightarrow> (\<exists>w. fst (ask_for_work cfg env d s) = Inr w))
   \<and> (remove_device_from_pool env (emit (Sleep wait) s0) = Some (d, s)
      \<and> fst (ask_for_work cfg env d s) = Inl e'
      \<longrightarrow> (\<exists>s'. poll_iteration cfg env wait s0 = Some (121, s')
             \<and> mset (pool s') = mset (pool s0)
             \<and> printed (trace s') = printed (trace (snd (ask_for_work cfg env d s))) @ [LoopError e']))
   \<and> (pool s0 \<noteq> [] \<longrightarrow>
        (\<exists>wait' s'. poll_loop n cfg env wait s0 = Some (wait', s')
           \<and> length (pool_removes (trace s')) = length (pool_removes (trace s0)) + n
           \<and> length (pool_adds (trace s')) = length (pool_adds (trace s0)) + n))"
proof -
  have "\<exists>s'. poll_iteration cfg env wait s0 = Some (121, s')
          \<and> mset (pool s') = mset (pool s0)
          \<and> printed (trace s') = printed (trace (snd (ask_for_work cfg env d s))) @ [LoopError e']"
    if rm: "remove_device_from_pool env (emit (Sleep wait) s0) = Some (d, s)"
      and r: "fst (ask_for_work cfg env d s) = Inl e'"
  proof -
    obtain s2 where ask: "ask_for_work cfg env d s = (Inl e', s2)"
      using r by (cases "ask_for_work cfg env d s") auto
    have it: "poll_iteration cfg env wait s0
                = Some (121, add_device_to_pool d (emit (Print (LoopError e')) s2))"
      using poll_iteration_result [OF rm ask] by simp
    show ?thesis
      using it poll_iteration_released [OF rm it] ask
      by (simp add: add_device_to_pool_def emit_def proj_append)
  qed
  moreover have "\<exists>wait' s'. poll_loop n cfg env wait s0 = Some (wait', s')
           \<and> length (pool_removes (trace s')) = length (pool_removes (trace s0)) + n
           \<and> length (pool_adds (trace s')) = length (pool_adds (trace s0)) + n"
    if "pool s0 \<noteq> []"
    using poll_loop_runs [OF that, of n cfg env wait] poll_loop_counts by blast
  moreover have "handler_msg (ClientConnectorError m1) = ConnectFailed (ClientConnectorError m1)"
    "handler_msg (ClientResponseError c) = RequestFailed (ClientResponseError c)"
    "handler_msg (ClientError m2) = RequestFailed (ClientError m2)"
    "handler_msg TimeoutError = TimedOut"
    "handler_msg (Exception m3) = UnknownError (Exception m3)"
    by (simp_all add: handler_msg_def)
  ultimately show ?thesis
    using ask_for_work_get_failed [of env d s mem w1 cfg e w2]
      ask_for_work_body_failed [of env d s mem w1 cfg resp w2 e]
      ask_for_work_caught [of env d s mem w1 cfg e s2]
      ask_for_work_returns [of env d s mem w1 cfg]
    by blast
qed

theorem poll_failures_back_off_witness:
  "quiet_outcome cfg0 env_offline (Device 0) st0 121
     [ConnectFailed (ClientConnectorError ''cannot connect'')]
   \<and> quiet_outcome cfg0 env_body_timeout (Device 0) st0 121 [TimedOut]
   \<and> (\<exists>s2. ask_for_work cfg0 env_body_timeout (Device 0) st0
              = (Inr 121, emit (Print TimedOut) s2))
   \<and> (\<exists>w. fst (ask_for_work cfg0 env_offline (Device 0) st0) = Inr w)
   \<and> fst (ask_for_work cfg0 env_no_telemetry (Device 0)
            \<lparr> pool = [], world = 0, trace = [Sleep 0, PoolRemove (Device 0)] \<rparr>)
       = Inl (Exception ''CUDA error'')
   \<and> (\<exists>s'. poll_iteration cfg0 env_no_telemetry 0 st0 = Some (121, s')
          \<and> mset (pool s') = mset (pool st0)
          \<and> printed (trace s')
              = [AskingForWork 0 ''https://hive.example/api'', LoopError (Exception ''CUDA error'')])
   \<and> (\<exists>wait' s'. poll_loop 3 cfg0 env_no_telemetry 0 st0 = Some (wait', s')
          \<and> length (pool_removes (trace s')) = 3 \<and> length (pool_adds (trace s')) = 3)"
proof -
  let ?leased = "\<lparr> pool = [], world = 0, trace = [Sleep 0, PoolRemove (Device 0)] \<rparr> :: nat state"
  let ?queried = "st0\<lparr>world := 1,
                     trace := trace st0 @ [Print (AskingForWork (device_id (Device 0)) (hive_uri cfg0)),
                                           MemGetInfo (device_id (Device 0))]\<rparr>"
  let ?timeout = "\<lparr> status = 200, json_body = Inl TimeoutError, text_body = Inl TimeoutError \<rparr>"
  have off: "quiet_outcome cfg0 env_offline (Device 0) st0 121
               [ConnectFailed (ClientConnectorError ''cannot connect'')]"
    using poll_failures_back_off [where env = env_offline and d = "Device 0" and s = st0
        and mem = "(1000, 8000)" and ?w1.0 = "Suc (world st0)" and cfg = cfg0
        and e = "ClientConnectorError ''cannot connect''" and ?w2.0 = "Suc (Suc (world st0))",
        THEN conjunct1]
    by (simp add: env_offline_def mem0_query fixed_get handler_msg_def)
  have ret: "\<exists>w. fst (ask_for_work cfg0 env_offline (Device 0) st0) = Inr w"
    using poll_failures_back_off [where env = env_offline and d = "Device 0" and s = st0
        and mem = "(1000, 8000)" and ?w1.0 = "Suc (world st0)" and cfg = cfg0]
    by (simp add: env_offline_def mem0_query)
  have body: "quiet_outcome cfg0 env_body_timeout (Device 0) st0 121 [TimedOut]"
    using poll_failures_back_off [where env = env_body_timeout and d = "Device 0" and s = st0
        and mem = "(1000, 8000)" and ?w1.0 = "Suc (world st0)" and cfg = cfg0
        and e = TimeoutError and ?w2.0 = "Suc (Suc (world st0))" and resp = ?timeout,
        THEN conjunct2, THEN conjunct1]
    by (simp add: env_body_timeout_def mem0_query fixed_get handler_msg_def)
  have f: "fst (ask_for_work_try cfg0 env_body_timeout (Device 0) (1000, 8000) ?queried)
             = Inl TimeoutError"
    by (simp add: ask_for_work_try_def handle_status_200_def env_body_timeout_def fixed_env_def
        Let_def)
  then have t: "ask_for_work_try cfg0 env_body_timeout (Device 0) (1000, 8000) ?queried
        = (Inl TimeoutError,
           snd (ask_for_work_try cfg0 env_body_timeout (Device 0) (1000, 8000) ?queried))"
    by (simp add: prod_eq_iff)
  have m: "mem_get_info env_body_timeout (device_id (Device 0)) (world st0) = (Inr (1000, 8000), 1)"
    by (simp add: env_body_timeout_def mem0_query st0_def)
  have caught: "\<exists>s2. ask_for_work cfg0 env_body_timeout (Device 0) st0
              = (Inr 121, emit (Print TimedOut) s2)"
    using poll_failures_back_off [where env = env_body_timeout and d = "Device 0" and s = st0
        and mem = "(1000, 8000)" and ?w1.0 = 1 and cfg = cfg0 and e = TimeoutError
        and ?s2.0 = "snd (ask_for_work_try cfg0 env_body_timeout (Device 0) (1000, 8000) ?queried)",
        THEN conjunct2, THEN conjunct2, THEN conjunct1] m t
    by (auto simp: handler_msg_def)
  have r: "fst (ask_for_work cfg0 env_no_telemetry (Device 0) ?leased) = Inl (Exception ''CUDA error'')"
    by (simp add: run_defs env_no_telemetry_def)
  have tr: "printed (trace (snd (ask_for_work cfg0 env_no_telemetry (Device 0) ?leased)))
              = [AskingForWork 0 ''https://hive.example/api'']"
    by (simp add: run_defs env_no_telemetry_def hive_uri_def rstrip_slash_def cfg0_def)
  have loop: "(\<exists>s'. poll_iteration cfg0 env_no_telemetry 0 st0 = Some (121, s')
          \<and> mset (pool s') = mset (pool st0)
          \<and> printed (trace s')
              = [AskingForWork 0 ''https://hive.example/api'', LoopError (Exception ''CUDA error'')])
        \<and> (\<exists>wait' s'. poll_loop 3 cfg0 env_no_telemetry 0 st0 = Some (wait', s')
          \<and> length (pool_removes (trace s')) = 3 \<and> length (pool_adds (trace s')) = 3)"
    using poll_failures_back_off [where env = env_no_telemetry and d = "Device 0" and s = ?leased
        and cfg = cfg0 and wait = 0 and ?s0.0 = st0 and e' = "Exception ''CUDA error''" and n = 3]
      r tr
    by (simp add: env_no_telemetry_def st0_lease) (simp add: st0_def)
  show ?thesis using off body caught ret r loop by blast
qed

section \<open>Failures of a job\<close>









section \<open>The request that is sent\<close>

lemma no_request_trans: "no_request s s1 \<Longrightarrow> no_request s1 s2 \<Longrightarrow> no_request s s2"
  by (auto simp: no_request_def proj_append)

lemma spawn_task_try_no_request: "spawn_task_try cfg env job d s = (r, s') \<Longrightarrow> no_request s s'"
  by (auto simp: spawn_task_try_def no_request_def emit_def Let_def proj_append
      split: prod.splits sum.splits if_splits)

lemma spawn_task_no_request: "spawn_task cfg env job d s = (r, s') \<Longrightarrow> no_request s s'"
  by (auto simp: spawn_task_def emit_def no_request_def proj_append
      dest!: spawn_task_try_no_request split: prod.splits sum.splits)

lemma dispatch_jobs_no_request:
  "dispatch_jobs cfg env d jobs did s = (r, s') \<Longrightarrow> no_request s s'"
proof (induction jobs arbitrary: did s)
  case Nil
  then show ?case by (simp add: no_request_def)
next
  case (Cons job jobs)
  obtain s1 where s1: "spawn_task cfg env job d s = (Inr (), s1)"
    using spawn_task_returns [of cfg env job d s] by (cases "spawn_task cfg env job d s") auto
  have "dispatch_jobs cfg env d jobs True s1 = (r, s')" using Cons.prems s1 by simp
  then have "no_request s1 s'" by (rule Cons.IH)
  moreover have "no_request s s1" using s1 by (rule spawn_task_no_request)
  ultimately show ?case using no_request_trans by blast
qed

lemma handle_status_200_no_request:
  "handle_status_200 cfg env resp d s = (r, s') \<Longrightarrow> no_request s s'"
  by (auto simp: handle_status_200_def emit_def no_request_def proj_append
      dest!: dispatch_jobs_no_request split: sum.splits json.splits prod.splits if_splits)

lemma handle_status_400_no_request: "handle_status_400 cfg resp s = (r, s') \<Longrightarrow> no_request s s'"
  by (auto simp: handle_status_400_def emit_def no_request_def proj_append split: sum.splits)

lemma ask_for_work_except_no_request: "ask_for_work_except e s = (r, s') \<Longrightarrow> no_request s s'"
  by (auto simp: ask_for_work_except_def emit_def no_request_def proj_append split: if_splits)

lemma ask_for_work_try_request:
  "ask_for_work_try cfg env d mem s = (r, s') \<Longrightarrow>
     \<exists>tr. trace s' = trace s @ HttpGet (work_request cfg d mem) # tr \<and> requests_sent tr = []"
  by (auto simp: ask_for_work_try_def emit_def Let_def no_request_def proj_append
      dest!: handle_status_200_no_request handle_status_400_no_request
      split: sum.splits prod.splits if_splits)

lemma ask_for_work_request:
  assumes mem: "mem_get_info env (device_id d) (world s) = (Inr mem, w1)"
  shows "\<exists>tr. trace (snd (ask_for_work cfg env d s))
                = trace s @ [Print (AskingForWork (device_id d) (hive_uri cfg)),
                             MemGetInfo (device_id d), HttpGet (work_request cfg d mem)] @ tr
              \<and> requests_sent tr = []"
proof -
  let ?s1 = "s\<lparr>world := w1,
               trace := trace s @ [Print (AskingForWork (device_id d) (hive_uri cfg)),
                                   MemGetInfo (device_id d)]\<rparr>"
  obtain r s2 where t: "ask_for_work_try cfg env d mem ?s1 = (r, s2)"
    by (cases "ask_for_work_try cfg env d mem ?s1") auto
  obtain tr where tr: "trace s2 = trace ?s1 @ HttpGet (work_request cfg d mem) # tr"
    "requests_sent tr = []"
    using ask_for_work_try_request [OF t] by blast
  show ?thesis
  proof (cases r)
    case (Inr w)
    then have "ask_for_work cfg env d s = (Inr w, s2)"
      using mem t by (simp add: ask_for_work_def emit_def Let_def)
    then show ?thesis using tr by simp
  next
    case (Inl e)
    then have a: "ask_for_work cfg env d s = ask_for_work_except e s2"
      using mem t by (simp add: ask_for_work_def emit_def Let_def)
    obtain r3 s3 where x: "ask_for_work_except e s2 = (r3, s3)"
      by (cases "ask_for_work_except e s2") auto
    obtain tr' where "trace s3 = trace s2 @ tr'" "requests_sent tr' = []"
      using ask_for_work_except_no_request [OF x] by (auto simp: no_request_def)
    then have "trace s3 = trace s @ [Print (AskingForWork (device_id d) (hive_uri cfg)),
                 MemGetInfo (device_id d), HttpGet (work_request cfg d mem)] @ (tr @ tr')"
      "requests_sent (tr @ tr') = []"
      using tr by (simp_all add: proj_append)
    then show ?thesis using a x by (metis snd_conv)
  qed
qed

lemma str_nat_0: "str_nat 0 = ''0''"
  by code_simp

text \<open>
  C7, as the code has it. A work request for a leased device is sent right after the
  memory query of the same call, and carries the worker version, the configured worker
  name followed by a colon and the ordinal of the device, and as \<^verbatim>\<open>vram\<close> the second
  component of the pair the query returned. \<^verbatim>\<open>torch.cuda.mem_get_info\<close> returns the
  pair (free, total), so \<^verbatim>\<open>vram\<close> is the total memory of the device in bytes.
\<close>

theorem work_request_parameters:
  assumes "mem_get_info env (device_id d) (world s) = (Inr (free_bytes, total_bytes), w1)"
  shows "(\<exists>tr. trace (snd (ask_for_work cfg env d s))
                = trace s @ [Print (AskingForWork (device_id d) (hive_uri cfg)),
                             MemGetInfo (device_id d),
                             HttpGet (work_request cfg d (free_bytes, total_bytes))] @ tr
              \<and> requests_sent tr = [])
       \<and> url (work_request cfg d (free_bytes, total_bytes)) = hive_uri cfg @ ''/work''
       \<and> params (work_request cfg d (free_bytes, total_bytes))
           = [(''worker_version'', JStr (package_version cfg)),
              (''worker_name'', JStr (worker_name cfg @ '':'' @ str_nat (device_id d))),
              (''vram'', JNum (int total_bytes))]"
  using ask_for_work_request [OF assms, of cfg] by (simp add: work_request_def)

theorem work_request_parameters_witness:
  "(\<exists>tr. trace (snd (ask_for_work cfg0 env_no_work (Device 0) st0))
            = [Print (AskingForWork 0 ''https://hive.example/api''), MemGetInfo 0,
               HttpGet (work_request cfg0 (Device 0) (1000, 8000))] @ tr
          \<and> requests_sent tr = [])
   \<and> params (work_request cfg0 (Device 0) (1000, 8000))
       = [(''worker_version'', JStr ''0.1.0''), (''worker_name'', JStr ''rig:0''),
          (''vram'', JNum 8000)]"
  using work_request_parameters [where env = env_no_work and d = "Device 0" and s = st0
      and free_bytes = 1000 and total_bytes = 8000 and ?w1.0 = 1 and cfg = cfg0]
  by (simp add: env_no_work_def mem0_query st0_def cfg0_def hive_uri_def rstrip_slash_def
      str_nat_0 del: str_nat.simps)

text \<open>
  The claim as stated, that \<^verbatim>\<open>vram\<close> is the memory currently free, fails: for a device
  with 1000 bytes free out of 8000 the request carries 8000.
\<close>

theorem vram_is_total_memory:
  "fst (mem_get_info env_no_work 0 0) = Inr (1000, 8000)
   \<and> requests_sent (trace (snd (ask_for_work cfg0 env_no_work (Device 0) st0)))
       = [work_request cfg0 (Device 0) (1000, 8000)]
   \<and> map_of (params (work_request cfg0 (Device 0) (1000, 8000))) ''vram'' = Some (JNum 8000)"
  by (simp add: run_defs env_no_work_def work_request_def)

section \<open>What startup guarantees\<close>

lemma is_available_count: "is_available rt = (0 < device_count rt)"
  by (simp add: is_available_def device_count_def)

lemma register_devices_registers:
  "register_devices rt ordinals s = Inr s' \<Longrightarrow>
     pool s' = pool s @ map Device ordinals
     \<and> pool_adds (trace s') = pool_adds (trace s) @ map Device ordinals"
  by (induction ordinals arbitrary: s)
    (auto simp: add_device_to_pool_def emit_def proj_append split: sum.splits)

lemma register_devices_returns:
  "\<forall>i \<in> set ordinals. \<exists>name. get_device_name rt i = Inr name \<Longrightarrow>
     \<exists>s'. register_devices rt ordinals s = Inr s'"
  by (induction ordinals arbitrary: s) auto

lemma startup_returned:
  assumes "startup version_lt rt cfg s = Inr s'"
  shows "is_available rt \<and> 0 < device_count rt
         \<and> \<not> version_lt (torch_version rt) ''2.0.0''
         \<and> pool s' = pool s @ map Device [0..<device_count rt]
         \<and> pool_adds (trace s') = pool_adds (trace s) @ map Device [0..<device_count rt]"
proof -
  have av: "is_available rt" and ve: "\<not> version_lt (torch_version rt) ''2.0.0''"
    using assms by (auto simp: startup_def split: if_splits)
  then have "register_devices rt [0..<device_count rt]
               (s\<lparr>trace := trace s @ [SetupLogging, Log (VersionIs (package_version cfg)),
                                        Log (TorchVersionIs (torch_version rt)),
                                        TorchOptions]\<rparr>) = Inr s'"
    using assms by (auto simp: startup_def split: sum.splits)
  from register_devices_registers [OF this] show ?thesis
    using av ve by (simp add: is_available_count proj_append)
qed

lemma startup_returns:
  assumes "is_available rt" and "\<not> version_lt (torch_version rt) ''2.0.0''"
    and "logging_setup rt = Inr ()"
    and "\<forall>i < device_count rt. \<exists>name. get_device_name rt i = Inr name"
  shows "\<exists>s'. startup version_lt rt cfg s = Inr s'"
  using assms(1,2,3) register_devices_returns [of "[0..<device_count rt]" rt] assms(4)
  by (simp add: startup_def)



lemma dotted_lt_new: "\<not> dotted_lt ''2.0.1'' ''2.0.0''"
  by code_simp



section \<open>The lease\<close>

lemma lease_held:
  assumes "remove_device_from_pool env s0 = Some (d, s1)" and "ask_for_work cfg env d s1 = (r, s2)"
  shows "mset (pool s2) + {#d#} = mset (pool s0)"
  using remove_device_from_pool_Some(1) [OF assms(1)] ask_for_work_keeps [OF assms(2)]
  by (simp add: keeps_pool_def)

lemma run_worker_pool:
  assumes "pool s = []" and "run_worker n version_lt rt cfg env s = Inr (Some (w, s'))"
  shows "mset (pool s') = mset (map Device [0..<device_count rt])"
proof -
  obtain s1 where st: "startup version_lt rt cfg s = Inr s1"
    and lp: "poll_loop n cfg env 0 (emit (Log WorkerStarted) s1) = Some (w, s')"
    using assms(2) by (auto simp: run_worker_def split: sum.splits)
  have "pool s1 = map Device [0..<device_count rt]"
    using startup_returned [OF st] assms(1) by simp
  then show ?thesis using poll_loop_pool [OF lp] by (simp add: emit_def)
qed

text \<open>
  C1. In every pass of the loop that gets a device, the device taken from the pool at
  the start is put back exactly once, as the last step of the pass, and nothing else is
  taken or put back in between; this holds whether the work request returns or raises.
  While the work request runs, the available devices together with the held one are the
  devices of the pool before the lease. So after startup from an empty pool and any
  number of passes, the pool holds exactly the devices that startup enumerated, each
  once.
\<close>

theorem lease_returned_once:
  "(poll_iteration cfg env wait s = Some (wait', s') \<longrightarrow>
      (\<exists>d tr. d \<in> set (pool s)
         \<and> trace s' = trace s @ [Sleep wait, PoolRemove d] @ tr @ [PoolAdd d]
         \<and> pool_adds tr = [] \<and> pool_removes tr = []
         \<and> mset (pool s') = mset (pool s)))
   \<and> (remove_device_from_pool env s0 = Some (d0, s1) \<and> ask_for_work cfg env d0 s1 = (r, s2)
      \<longrightarrow> mset (pool s2) + {#d0#} = mset (pool s0))
   \<and> (pool s3 = [] \<and> run_worker n version_lt rt cfg env s3 = Inr (Some (w, s4))
      \<longrightarrow> mset (pool s4) = mset (map Device [0..<device_count rt]))"
  using poll_iteration_lease [of cfg env wait s wait' s']
    lease_held [of env s0 d0 s1 cfg r s2]
    run_worker_pool [of s3 n version_lt rt cfg env w s4]
  by blast

theorem lease_returned_once_witness:
  "(\<exists>s'. poll_iteration cfg0 env_no_telemetry 0 st0 = Some (121, s')
       \<and> (\<exists>tr. trace s' = [Sleep 0, PoolRemove (Device 0)] @ tr @ [PoolAdd (Device 0)]
              \<and> pool_adds tr = [] \<and> pool_removes tr = [])
       \<and> mset (pool s') = {#Device 0#})
   \<and> (\<exists>leased r s2. remove_device_from_pool env_jobs st0 = Some (Device 0, leased)
       \<and> ask_for_work cfg0 env_jobs (Device 0) leased = (r, s2)
       \<and> mset (pool s2) + {#Device 0#} = {#Device 0#})
   \<and> (\<exists>w s4. run_worker 2 dotted_lt rt_two cfg0 env_jobs st_empty = Inr (Some (w, s4))
       \<and> mset (pool s4) = {#Device 0, Device 1#})"
proof -
  have "map_option fst (poll_iteration cfg0 env_no_telemetry 0 st0) = Some 121"
    by (simp add: run_defs env_no_telemetry_def)
  then obtain s' where it: "poll_iteration cfg0 env_no_telemetry 0 st0 = Some (121, s')"
    by (cases "poll_iteration cfg0 env_no_telemetry 0 st0") auto
  have one: "\<exists>s'. poll_iteration cfg0 env_no_telemetry 0 st0 = Some (121, s')
       \<and> (\<exists>tr. trace s' = [Sleep 0, PoolRemove (Device 0)] @ tr @ [PoolAdd (Device 0)]
              \<and> pool_adds tr = [] \<and> pool_removes tr = [])
       \<and> mset (pool s') = {#Device 0#}"
    using lease_returned_once [where cfg = cfg0 and env = env_no_telemetry and wait = 0
        and s = st0 and wait' = 121 and s' = s', THEN conjunct1] it
    by (auto simp: st0_def)
  obtain leased where rm: "remove_device_from_pool env_jobs st0 = Some (Device 0, leased)"
    by (simp add: remove_device_from_pool_def env_jobs_def fixed_env_def st0_def Let_def)
  obtain r s2 where ask: "ask_for_work cfg0 env_jobs (Device 0) leased = (r, s2)"
    by (cases "ask_for_work cfg0 env_jobs (Device 0) leased") auto
  have two: "\<exists>leased r s2. remove_device_from_pool env_jobs st0 = Some (Device 0, leased)
       \<and> ask_for_work cfg0 env_jobs (Device 0) leased = (r, s2)
       \<and> mset (pool s2) + {#Device 0#} = {#Device 0#}"
    using lease_returned_once [where cfg = cfg0 and env = env_jobs and ?s0.0 = st0
        and ?d0.0 = "Device 0" and ?s1.0 = leased and r = r and ?s2.0 = s2,
        THEN conjunct2, THEN conjunct1] rm ask
    by (auto simp: st0_def)
  have n: "device_count rt_two = 2" by (simp add: rt_two_def device_count_def)
  have "is_available rt_two" "\<not> dotted_lt (torch_version rt_two) ''2.0.0''"
    "logging_setup rt_two = Inr ()"
    "\<forall>i < device_count rt_two. \<exists>name. get_device_name rt_two i = Inr name"
    by (simp_all add: rt_two_def is_available_def dotted_lt_new)
  then obtain s1 where st: "startup dotted_lt rt_two cfg0 st_empty = Inr s1"
    using startup_returns by blast
  have p1: "pool (emit (Log WorkerStarted) s1) \<noteq> []"
    using startup_returned [OF st] by (simp add: n emit_def)
  obtain w s4 where lp: "poll_loop 2 cfg0 env_jobs 0 (emit (Log WorkerStarted) s1) = Some (w, s4)"
    using poll_loop_runs [OF p1] by blast
  have rw: "run_worker 2 dotted_lt rt_two cfg0 env_jobs st_empty = Inr (Some (w, s4))"
    using st lp by (simp add: run_worker_def)
  have "[0..<2] = [0, Suc 0]" by (simp add: upt_rec)
  then have three: "\<exists>w s4. run_worker 2 dotted_lt rt_two cfg0 env_jobs st_empty = Inr (Some (w, s4))
       \<and> mset (pool s4) = {#Device 0, Device 1#}"
    using lease_returned_once [where ?s3.0 = st_empty and n = 2 and version_lt = dotted_lt
        and rt = rt_two and cfg = cfg0 and env = env_jobs and w = w and ?s4.0 = s4,
        THEN conjunct2, THEN conjunct2] rw
    by (auto simp: st_empty_def n)
  show ?thesis using one two three by blast
qed

section \<open>The record of the past does not steer the worker\<close>

















end
